theory Spec2Isabelle
  imports Complex_Main "HOL-Library.Multiset"
begin

section \<open>Data model\<close>

text \<open>
  The types of \<^verbatim>\<open>../types\<close> are not part of the sources at hand; the records below
  hold the fields that \<^verbatim>\<open>leaf-view.ts\<close> and \<^verbatim>\<open>shine-dialog.ts\<close> read and write.
  An optional property (\<^verbatim>\<open>activatedAt?: string\<close>) is an \<open>option\<close>, \<open>None\<close> standing
  for \<^verbatim>\<open>undefined\<close>.
\<close>

datatype SproutSeason = S1w | S2w | S1m | S3m | S6m | S1y

datatype SproutEnvironment = Fertile | Firm | Barren

text \<open>Modelled from the spec: the lifecycle states of a Sprout (section 3 of the
  specification), the declaration of \<^verbatim>\<open>SproutState\<close> being absent.\<close>

datatype SproutState = Active | Completed | Failed

text \<open>A water entry or a sun entry: \<^verbatim>\<open>{ timestamp, content, prompt? }\<close>.\<close>

record JournalEntry =
  j_timestamp :: string
  j_content :: string
  j_prompt :: "string option"

record Sprout =
  sprout_id :: string
  title :: string
  season :: SproutSeason
  environment :: SproutEnvironment
  state :: SproutState
  soilCost :: int
  createdAt :: string
  activatedAt :: "string option"
  endDate :: "string option"
  completedAt :: "string option"
  graftedFromId :: "string option"
  leafId :: "string option"
  waterEntries :: "JournalEntry list option"
  sunEntries :: "JournalEntry list option"
  result :: "int option"
  reflection :: "string option"

datatype LogEntryType = SproutStart | Watering | Shining | Completion | GraftOrigin

text \<open>The \<^verbatim>\<open>data\<close> object of a log entry: every property is optional.\<close>

record LogData =
  d_season :: "SproutSeason option"
  d_environment :: "SproutEnvironment option"
  d_content :: "string option"
  d_prompt :: "string option"
  d_result :: "int option"
  d_reflection :: "string option"
  d_isSuccess :: "bool option"
  d_graftedFromTitle :: "string option"

record LogEntry =
  entryType :: LogEntryType
  timestamp :: string
  sproutId :: string
  sproutTitle :: string
  data :: LogData

definition noData :: LogData where
  "noData = \<lparr>d_season = None, d_environment = None, d_content = None, d_prompt = None,
     d_result = None, d_reflection = None, d_isSuccess = None, d_graftedFromTitle = None\<rparr>"

section \<open>JavaScript values\<close>

text \<open>Truthiness of an optional string: \<^verbatim>\<open>undefined\<close> and the empty string are falsy.\<close>

fun truthy :: "string option \<Rightarrow> bool" where
  "truthy None = False"
| "truthy (Some s) = (s \<noteq> [])"

text \<open>\<^verbatim>\<open>a || b\<close> where \<open>a\<close> is an optional string and \<open>b\<close> a string.\<close>

fun orElse :: "string option \<Rightarrow> string \<Rightarrow> string" where
  "orElse None d = d"
| "orElse (Some s) d = (if s \<noteq> [] then s else d)"

text \<open>\<^verbatim>\<open>xs || []\<close> for an optional array.\<close>

fun orEmpty :: "'a list option \<Rightarrow> 'a list" where
  "orEmpty None = []"
| "orEmpty (Some xs) = xs"

text \<open>
  A JavaScript number that is an integer or \<^verbatim>\<open>NaN\<close> (\<open>None\<close>): the time value of a
  \<^verbatim>\<open>Date\<close>, and the difference of two of them. A comparison with \<^verbatim>\<open>NaN\<close> is false.
\<close>

type_synonym number = "int option"

fun subtract :: "number \<Rightarrow> number \<Rightarrow> number" where
  "subtract (Some x) (Some y) = Some (x - y)"
| "subtract _ _ = None"

fun notBefore :: "number \<Rightarrow> number \<Rightarrow> bool" where
  "notBefore (Some x) (Some y) = (y \<le> x)"
| "notBefore _ _ = False"

text \<open>
  \<^verbatim>\<open>Array.prototype.sort(cmp)\<close>: a stable sort (ECMAScript 2019); an element \<open>x\<close> goes
  before \<open>y\<close> when \<open>cmp x y < 0\<close>, elements that compare equal keep their order, and a
  comparison that is \<^verbatim>\<open>NaN\<close> counts as \<open>0\<close> (\<^verbatim>\<open>SortCompare\<close>). The model is the stable
  insertion sort, each element being inserted in front of the first element of the
  sorted rest that it does not have to follow. Where the comparison is not consistent
  (\<^verbatim>\<open>NaN\<close> beside numbers) the order is the implementation's; nothing below depends on
  the order that the model gives there.
\<close>

definition sortCompare :: "('a \<Rightarrow> 'a \<Rightarrow> number) \<Rightarrow> 'a \<Rightarrow> 'a \<Rightarrow> int" where
  "sortCompare cmp x y = (case cmp x y of None \<Rightarrow> 0 | Some v \<Rightarrow> v)"

fun sortInsert :: "('a \<Rightarrow> 'a \<Rightarrow> number) \<Rightarrow> 'a \<Rightarrow> 'a list \<Rightarrow> 'a list" where
  "sortInsert cmp x [] = [x]"
| "sortInsert cmp x (y # ys) =
     (if sortCompare cmp x y \<le> 0 then x # y # ys else y # sortInsert cmp x ys)"

fun arraySort :: "('a \<Rightarrow> 'a \<Rightarrow> number) \<Rightarrow> 'a list \<Rightarrow> 'a list" where
  "arraySort cmp [] = []"
| "arraySort cmp (x # xs) = sortInsert cmp x (arraySort cmp xs)"

section \<open>The unified log (leaf-view.ts)\<close>

text \<open>
  \<^verbatim>\<open>new Date(s).getTime()\<close> is the platform's: it is the parameter \<open>getTime\<close> of the
  model, the milliseconds since the epoch that a timestamp string denotes, or \<^verbatim>\<open>NaN\<close>
  for a string that does not parse.
\<close>

type_synonym clock = "string \<Rightarrow> number"

text \<open>The comparison function of the final sort:
  \<^verbatim>\<open>(a, b) => new Date(b.timestamp).getTime() - new Date(a.timestamp).getTime()\<close>.
  (The difference of two time values is rounded when it is beyond \<open>2^53\<close>; its sign is
  that of the exact difference.)\<close>

definition byTimestampDesc :: "clock \<Rightarrow> LogEntry \<Rightarrow> LogEntry \<Rightarrow> number" where
  "byTimestampDesc getTime a b = subtract (getTime (timestamp b)) (getTime (timestamp a))"

definition startEntry :: "Sprout \<Rightarrow> LogEntry" where
  "startEntry sprout =
     \<lparr>entryType = SproutStart,
      timestamp = orElse (activatedAt sprout) (createdAt sprout),
      sproutId = sprout_id sprout,
      sproutTitle = title sprout,
      data = noData\<lparr>d_season := Some (season sprout),
                     d_environment := Some (environment sprout)\<rparr>\<rparr>"

text \<open>\<^verbatim>\<open>sprouts.find(s => s.id === sprout.graftedFromId)\<close> and
  \<^verbatim>\<open>parent?.title || 'previous sprout'\<close>.\<close>

definition graftedFromTitle :: "Sprout list \<Rightarrow> string \<Rightarrow> string" where
  "graftedFromTitle sprouts origin =
     (case find (\<lambda>s. sprout_id s = origin) sprouts of
        None \<Rightarrow> ''previous sprout''
      | Some parent \<Rightarrow> orElse (Some (title parent)) ''previous sprout'')"

definition graftEntry :: "Sprout list \<Rightarrow> Sprout \<Rightarrow> string \<Rightarrow> LogEntry" where
  "graftEntry sprouts sprout origin =
     \<lparr>entryType = GraftOrigin,
      timestamp = createdAt sprout,
      sproutId = sprout_id sprout,
      sproutTitle = title sprout,
      data = noData\<lparr>d_graftedFromTitle := Some (graftedFromTitle sprouts origin)\<rparr>\<rparr>"

definition journalEntry :: "LogEntryType \<Rightarrow> Sprout \<Rightarrow> JournalEntry \<Rightarrow> LogEntry" where
  "journalEntry ty sprout e =
     \<lparr>entryType = ty,
      timestamp = j_timestamp e,
      sproutId = sprout_id sprout,
      sproutTitle = title sprout,
      data = noData\<lparr>d_content := Some (j_content e), d_prompt := j_prompt e\<rparr>\<rparr>"

definition completionEntry :: "Sprout \<Rightarrow> string \<Rightarrow> LogEntry" where
  "completionEntry sprout doneAt =
     \<lparr>entryType = Completion,
      timestamp = doneAt,
      sproutId = sprout_id sprout,
      sproutTitle = title sprout,
      data = noData\<lparr>d_result := result sprout,
                     d_reflection := reflection sprout,
                     d_isSuccess := Some (state sprout = Completed)\<rparr>\<rparr>"

text \<open>The inner loops \<^verbatim>\<open>for (const water of sprout.waterEntries || [])\<close> and
  \<^verbatim>\<open>for (const sun of sprout.sunEntries || [])\<close>: one push per element.\<close>

fun pushJournal :: "LogEntryType \<Rightarrow> Sprout \<Rightarrow> JournalEntry list \<Rightarrow> LogEntry list \<Rightarrow> LogEntry list" where
  "pushJournal ty sprout [] entries = entries"
| "pushJournal ty sprout (e # es) entries =
     pushJournal ty sprout es (entries @ [journalEntry ty sprout e])"

text \<open>The pushes guarded by \<^verbatim>\<open>if (sprout.graftedFromId)\<close> and
  \<^verbatim>\<open>if (sprout.completedAt)\<close>.\<close>

definition pushGraft :: "Sprout list \<Rightarrow> Sprout \<Rightarrow> LogEntry list \<Rightarrow> LogEntry list" where
  "pushGraft sprouts sprout entries =
     (case graftedFromId sprout of
        None \<Rightarrow> entries
      | Some origin \<Rightarrow>
          if origin \<noteq> [] then entries @ [graftEntry sprouts sprout origin] else entries)"

definition pushCompletion :: "Sprout \<Rightarrow> LogEntry list \<Rightarrow> LogEntry list" where
  "pushCompletion sprout entries =
     (case completedAt sprout of
        None \<Rightarrow> entries
      | Some doneAt \<Rightarrow>
          if doneAt \<noteq> [] then entries @ [completionEntry sprout doneAt] else entries)"

text \<open>One iteration of \<^verbatim>\<open>for (const sprout of sprouts)\<close> in
  \<^verbatim>\<open>src/ui/leaf-view.ts\<close>, which also walks the sun entries.\<close>

definition pushSprout :: "Sprout list \<Rightarrow> LogEntry list \<Rightarrow> Sprout \<Rightarrow> LogEntry list" where
  "pushSprout sprouts entries sprout =
     pushCompletion sprout
       (pushJournal Shining sprout (orEmpty (sunEntries sprout))
         (pushJournal Watering sprout (orEmpty (waterEntries sprout))
           (pushGraft sprouts sprout (entries @ [startEntry sprout]))))"

text \<open>The same iteration in the earlier revision of the file (\<^verbatim>\<open>part_000\<close>), which
  has no sun entries in the log.\<close>

definition pushSprout0 :: "Sprout list \<Rightarrow> LogEntry list \<Rightarrow> Sprout \<Rightarrow> LogEntry list" where
  "pushSprout0 sprouts entries sprout =
     pushCompletion sprout
       (pushJournal Watering sprout (orEmpty (waterEntries sprout))
         (pushGraft sprouts sprout (entries @ [startEntry sprout])))"

definition collectEntries :: "Sprout list \<Rightarrow> LogEntry list" where
  "collectEntries sprouts = foldl (pushSprout sprouts) [] sprouts"

definition collectEntries0 :: "Sprout list \<Rightarrow> LogEntry list" where
  "collectEntries0 sprouts = foldl (pushSprout0 sprouts) [] sprouts"

definition buildUnifiedLog :: "clock \<Rightarrow> Sprout list \<Rightarrow> LogEntry list" where
  "buildUnifiedLog getTime sprouts =
     arraySort (byTimestampDesc getTime) (collectEntries sprouts)"

definition buildUnifiedLog0 :: "clock \<Rightarrow> Sprout list \<Rightarrow> LogEntry list" where
  "buildUnifiedLog0 getTime sprouts =
     arraySort (byTimestampDesc getTime) (collectEntries0 sprouts)"

text \<open>Most recent first: every entry is at least as recent as the entries after it.\<close>

definition newestFirst :: "clock \<Rightarrow> LogEntry list \<Rightarrow> bool" where
  "newestFirst getTime es =
     sorted_wrt (\<lambda>a b. notBefore (getTime (timestamp a)) (getTime (timestamp b))) es"

text \<open>What a log entry says: its kind, its timestamp, the Sprout it belongs to and, on a
  completion, the success flag.\<close>

type_synonym event = "LogEntryType \<times> string \<times> string \<times> bool option"

definition summary :: "LogEntry \<Rightarrow> event" where
  "summary e = (entryType e, timestamp e, sproutId e, d_isSuccess (data e))"

text \<open>
  The events of one Sprout in the words of the specification (claim C4): one start at
  \<open>activatedAt\<close>, or at \<open>createdAt\<close> when that is absent; one graft origin at
  \<open>createdAt\<close> when \<open>graftedFromId\<close> is set; one watering per water entry; one
  completion at \<open>completedAt\<close> when that is set, flagged with \<open>state = completed\<close>.
  Absent and set are read as JavaScript reads them: an empty string counts as absent.
\<close>

definition startTime :: "Sprout \<Rightarrow> string" where
  "startTime s =
     (case activatedAt s of
        None \<Rightarrow> createdAt s
      | Some a \<Rightarrow> if a = [] then createdAt s else a)"

definition graftEvents :: "Sprout \<Rightarrow> event list" where
  "graftEvents s =
     (if truthy (graftedFromId s) then [(GraftOrigin, createdAt s, sprout_id s, None)] else [])"

definition completionEvents :: "Sprout \<Rightarrow> event list" where
  "completionEvents s =
     (case completedAt s of
        None \<Rightarrow> []
      | Some c \<Rightarrow>
          if c = [] then [] else [(Completion, c, sprout_id s, Some (state s = Completed))])"

definition journalEvents :: "LogEntryType \<Rightarrow> Sprout \<Rightarrow> JournalEntry list option \<Rightarrow> event list" where
  "journalEvents ty s es = map (\<lambda>e. (ty, j_timestamp e, sprout_id s, None)) (orEmpty es)"

definition claimedEvents :: "Sprout \<Rightarrow> event list" where
  "claimedEvents s =
     (SproutStart, startTime s, sprout_id s, None) # graftEvents s
       @ journalEvents Watering s (waterEntries s) @ completionEvents s"

text \<open>The same with one shining event per sun entry, as \<^verbatim>\<open>src/ui/leaf-view.ts\<close> has it.\<close>

definition emittedEvents :: "Sprout \<Rightarrow> event list" where
  "emittedEvents s =
     (SproutStart, startTime s, sprout_id s, None) # graftEvents s
       @ journalEvents Watering s (waterEntries s)
       @ journalEvents Shining s (sunEntries s) @ completionEvents s"

text \<open>The graft-origin entry of a Sprout whose origin is not found: the placeholder
  label stands in for the origin's title.\<close>

definition placeholderEntry :: "Sprout \<Rightarrow> LogEntry" where
  "placeholderEntry s =
     \<lparr>entryType = GraftOrigin, timestamp = createdAt s, sproutId = sprout_id s,
      sproutTitle = title s,
      data = \<lparr>d_season = None, d_environment = None, d_content = None, d_prompt = None,
               d_result = None, d_reflection = None, d_isSuccess = None,
               d_graftedFromTitle = Some ''previous sprout''\<rparr>\<rparr>"

subsection \<open>Example data\<close>

definition exampleSprout :: Sprout where
  "exampleSprout =
     \<lparr>sprout_id = ''sprout-1'', title = ''Read more'', season = S1m, environment = Firm,
      state = Completed, soilCost = 5, createdAt = ''2024-01-01T09:00:00.000Z'',
      activatedAt = Some ''2024-01-02T09:00:00.000Z'', endDate = None,
      completedAt = Some ''2024-02-02T15:00:00.000Z'', graftedFromId = None,
      leafId = Some ''leaf-1'',
      waterEntries = Some [\<lparr>j_timestamp = ''2024-01-05T08:00:00.000Z'',
                              j_content = ''ten pages'', j_prompt = None\<rparr>],
      sunEntries = None, result = Some 4, reflection = None\<rparr>"

text \<open>A successor grafted from a Sprout that is not part of the sequence, with one
  sun entry.\<close>

definition graftedSprout :: Sprout where
  "graftedSprout =
     exampleSprout\<lparr>sprout_id := ''sprout-2'', title := ''Read daily'', state := Active,
       createdAt := ''2024-02-03T09:00:00.000Z'',
       activatedAt := Some ''2024-02-03T09:00:00.000Z'', completedAt := None,
       graftedFromId := Some ''sprout-0'', waterEntries := None,
       sunEntries := Some [\<lparr>j_timestamp = ''2024-02-04T07:00:00.000Z'',
                              j_content = ''a good week'', j_prompt = Some ''What went well?''\<rparr>],
       result := None\<rparr>"

text \<open>A Sprout with a water entry whose timestamp is not a date.\<close>

definition undatedSprout :: Sprout where
  "undatedSprout =
     exampleSprout\<lparr>waterEntries := Some [\<lparr>j_timestamp = ''not a date'',
                                            j_content = ''ten pages'', j_prompt = None\<rparr>]\<rparr>"

section \<open>Dates\<close>

text \<open>
  A \<^verbatim>\<open>Date\<close> is its time value, the milliseconds since the epoch, and the operations
  on it are the abstract operations of ECMAScript (section "Date Objects"). Time values
  are integers without the range limit of \<^verbatim>\<open>TimeClip\<close>, and \<^verbatim>\<open>Invalid Date\<close> is not a
  value of the model.
\<close>

definition msPerDay :: int where
  "msPerDay = 86400000"

definition Day :: "int \<Rightarrow> int" where
  "Day t = t div msPerDay"

definition TimeWithinDay :: "int \<Rightarrow> int" where
  "TimeWithinDay t = t mod msPerDay"

definition DaysInYear :: "int \<Rightarrow> int" where
  "DaysInYear y =
     (if y mod 4 \<noteq> 0 then 365
      else if y mod 100 \<noteq> 0 then 366
      else if y mod 400 \<noteq> 0 then 365 else 366)"

definition DayFromYear :: "int \<Rightarrow> int" where
  "DayFromYear y =
     365 * (y - 1970) + (y - 1969) div 4 - (y - 1901) div 100 + (y - 1601) div 400"

text \<open>\<open>YearFromTime t\<close> is the largest year that starts at or before \<open>t\<close>: an estimate
  from the mean length of a year, corrected by at most one.\<close>

definition YearFromTime :: "int \<Rightarrow> int" where
  "YearFromTime t =
     (let d = Day t; y = 1970 + (400 * d) div 146097
      in if DayFromYear (y + 1) \<le> d then y + 1
         else if DayFromYear y \<le> d then y else y - 1)"

definition leapDays :: "int \<Rightarrow> int" where
  "leapDays y = (if DaysInYear y = 366 then 1 else 0)"

definition InLeapYear :: "int \<Rightarrow> int" where
  "InLeapYear t = leapDays (YearFromTime t)"

definition DayWithinYear :: "int \<Rightarrow> int" where
  "DayWithinYear t = Day t - DayFromYear (YearFromTime t)"

text \<open>The day of the year on which month \<open>m\<close> (0 to 11) starts; 12 stands for the end of
  the year.\<close>

definition monthStart :: "int \<Rightarrow> int \<Rightarrow> int" where
  "monthStart leap m =
     (if m = 0 then 0 else if m = 1 then 31 else if m = 2 then 59 + leap
      else if m = 3 then 90 + leap else if m = 4 then 120 + leap
      else if m = 5 then 151 + leap else if m = 6 then 181 + leap
      else if m = 7 then 212 + leap else if m = 8 then 243 + leap
      else if m = 9 then 273 + leap else if m = 10 then 304 + leap
      else if m = 11 then 334 + leap else 365 + leap)"

text \<open>The month in which day \<open>d\<close> of a year falls.\<close>

definition monthOfDay :: "int \<Rightarrow> int \<Rightarrow> int" where
  "monthOfDay leap d =
     (if d < 31 then 0 else if d < 59 + leap then 1 else if d < 90 + leap then 2
      else if d < 120 + leap then 3 else if d < 151 + leap then 4
      else if d < 181 + leap then 5 else if d < 212 + leap then 6
      else if d < 243 + leap then 7 else if d < 273 + leap then 8
      else if d < 304 + leap then 9 else if d < 334 + leap then 10 else 11)"

definition MonthFromTime :: "int \<Rightarrow> int" where
  "MonthFromTime t = monthOfDay (InLeapYear t) (DayWithinYear t)"

definition DateFromTime :: "int \<Rightarrow> int" where
  "DateFromTime t = DayWithinYear t - monthStart (InLeapYear t) (MonthFromTime t) + 1"

definition MakeTime :: "int \<Rightarrow> int \<Rightarrow> int \<Rightarrow> int \<Rightarrow> int" where
  "MakeTime hour minute sec ms = hour * 3600000 + minute * 60000 + sec * 1000 + ms"

text \<open>\<open>MakeDay\<close>: the day number of the first of the month, \<open>month\<close> counted on from
  January of \<open>year\<close>, plus \<open>date - 1\<close>; a \<open>date\<close> beyond the end of the month counts on
  into the months that follow.\<close>

definition MakeDay :: "int \<Rightarrow> int \<Rightarrow> int \<Rightarrow> int" where
  "MakeDay year month date =
     (let ym = year + month div 12; mn = month mod 12
      in DayFromYear ym + monthStart (leapDays ym) mn + date - 1)"

definition MakeDate :: "int \<Rightarrow> int \<Rightarrow> int" where
  "MakeDate day time = day * msPerDay + time"

text \<open>
  The local time zone is the platform's: the offset of local time from UTC in
  milliseconds, which changes with daylight saving. \<open>offsetAtUTC z t\<close> is
  \<^verbatim>\<open>LocalTZA(t, true)\<close>, the offset in force at the time value \<open>t\<close>; \<open>offsetAtLocal z t\<close>
  is \<^verbatim>\<open>LocalTZA(t, false)\<close>, the offset by which the local time \<open>t\<close> is read (a local
  time that a change of the offset skips or repeats is read with the offset before the
  change).
\<close>

record TimeZone =
  offsetAtUTC :: "int \<Rightarrow> int"
  offsetAtLocal :: "int \<Rightarrow> int"

definition LocalTime :: "TimeZone \<Rightarrow> int \<Rightarrow> int" where
  "LocalTime z t = t + offsetAtUTC z t"

definition UTC :: "TimeZone \<Rightarrow> int \<Rightarrow> int" where
  "UTC z t = t - offsetAtLocal z t"

definition getDate :: "TimeZone \<Rightarrow> int \<Rightarrow> int" where
  "getDate z tv = DateFromTime (LocalTime z tv)"

definition getMonth :: "TimeZone \<Rightarrow> int \<Rightarrow> int" where
  "getMonth z tv = MonthFromTime (LocalTime z tv)"

definition getFullYear :: "TimeZone \<Rightarrow> int \<Rightarrow> int" where
  "getFullYear z tv = YearFromTime (LocalTime z tv)"

definition setDate :: "TimeZone \<Rightarrow> int \<Rightarrow> int \<Rightarrow> int" where
  "setDate z dt tv =
     (let t = LocalTime z tv
      in UTC z (MakeDate (MakeDay (YearFromTime t) (MonthFromTime t) dt) (TimeWithinDay t)))"

definition setMonth :: "TimeZone \<Rightarrow> int \<Rightarrow> int \<Rightarrow> int" where
  "setMonth z m tv =
     (let t = LocalTime z tv
      in UTC z (MakeDate (MakeDay (YearFromTime t) m (DateFromTime t)) (TimeWithinDay t)))"

definition setFullYear :: "TimeZone \<Rightarrow> int \<Rightarrow> int \<Rightarrow> int" where
  "setFullYear z y tv =
     (let t = LocalTime z tv
      in UTC z (MakeDate (MakeDay y (MonthFromTime t) (DateFromTime t)) (TimeWithinDay t)))"

definition setUTCHours :: "int \<Rightarrow> int \<Rightarrow> int \<Rightarrow> int \<Rightarrow> int \<Rightarrow> int" where
  "setUTCHours hour minute sec ms tv = MakeDate (Day tv) (MakeTime hour minute sec ms)"

text \<open>The \<^verbatim>\<open>switch\<close> of \<^verbatim>\<open>getEndDate\<close>: the start moved on by the season.\<close>

fun addSeason :: "TimeZone \<Rightarrow> SproutSeason \<Rightarrow> int \<Rightarrow> int" where
  "addSeason z S1w d = setDate z (getDate z d + 7) d"
| "addSeason z S2w d = setDate z (getDate z d + 14) d"
| "addSeason z S1m d = setMonth z (getMonth z d + 1) d"
| "addSeason z S3m d = setMonth z (getMonth z d + 3) d"
| "addSeason z S6m d = setMonth z (getMonth z d + 6) d"
| "addSeason z S1y d = setFullYear z (getFullYear z d + 1) d"

definition getEndDate :: "TimeZone \<Rightarrow> SproutSeason \<Rightarrow> int \<Rightarrow> int" where
  "getEndDate z sn startDate = setUTCHours 15 0 0 0 (addSeason z sn startDate)"

text \<open>The seasons counted in days and the seasons counted in calendar months (a year
  is twelve months).\<close>

definition seasonDays :: "SproutSeason \<Rightarrow> int" where
  "seasonDays sn = (case sn of S1w \<Rightarrow> 7 | S2w \<Rightarrow> 14 | _ \<Rightarrow> 0)"

definition seasonMonths :: "SproutSeason \<Rightarrow> int" where
  "seasonMonths sn = (case sn of S1m \<Rightarrow> 1 | S3m \<Rightarrow> 3 | S6m \<Rightarrow> 6 | S1y \<Rightarrow> 12 | _ \<Rightarrow> 0)"

text \<open>The day number of the first of month \<open>m\<close>, counted on from January of year \<open>y\<close>,
  and the number of days of a month.\<close>

definition firstOfMonth :: "int \<Rightarrow> int \<Rightarrow> int" where
  "firstOfMonth y m = MakeDay y m 1"

definition daysInMonth :: "int \<Rightarrow> int \<Rightarrow> int" where
  "daysInMonth y m = monthStart (leapDays y) (m + 1) - monthStart (leapDays y) m"

text \<open>The year and the month that lie the months of the season after the local month
  of \<open>t\<close>.\<close>

definition targetYear :: "TimeZone \<Rightarrow> SproutSeason \<Rightarrow> int \<Rightarrow> int" where
  "targetYear z sn t = getFullYear z t + (getMonth z t + seasonMonths sn) div 12"

definition targetMonth :: "TimeZone \<Rightarrow> SproutSeason \<Rightarrow> int \<Rightarrow> int" where
  "targetMonth z sn t = (getMonth z t + seasonMonths sn) mod 12"

text \<open>
  The start moved on by the season in local time, in the words of the specification:
  the local time of the start plus the days of the season, or plus the days that lie
  between the first of the start's month and the first of the month that many months
  later.
\<close>

definition movedLocal :: "TimeZone \<Rightarrow> SproutSeason \<Rightarrow> int \<Rightarrow> int" where
  "movedLocal z sn t =
     LocalTime z t
       + (seasonDays sn
          + (firstOfMonth (getFullYear z t) (getMonth z t + seasonMonths sn)
             - firstOfMonth (getFullYear z t) (getMonth z t))) * msPerDay"

text \<open>Two zones for the examples: UTC itself, and New York in the year 2024, five hours
  behind UTC and four from 10 March, 2:00 local time (7:00 UTC), to 3 November, 2:00
  local time (6:00 UTC).\<close>

definition utcZone :: TimeZone where
  "utcZone = \<lparr>offsetAtUTC = (\<lambda>t. 0), offsetAtLocal = (\<lambda>t. 0)\<rparr>"

definition newYork2024 :: TimeZone where
  "newYork2024 =
     \<lparr>offsetAtUTC = (\<lambda>t. if 1710054000000 \<le> t \<and> t < 1730613600000
                          then - 14400000 else - 18000000),
      offsetAtLocal = (\<lambda>t. if 1710039600000 \<le> t \<and> t < 1730599200000
                            then - 14400000 else - 18000000)\<rparr>"

text \<open>\<^verbatim>\<open>Date.prototype.toISOString\<close>: \<^verbatim>\<open>YYYY-MM-DDTHH:mm:ss.sssZ\<close> in UTC, the year with
  a sign and six digits outside 0 to 9999.\<close>

fun padded :: "nat \<Rightarrow> int \<Rightarrow> string" where
  "padded 0 n = []"
| "padded (Suc k) n = padded k (n div 10) @ [char_of (48 + n mod 10)]"

definition isoYear :: "int \<Rightarrow> string" where
  "isoYear y =
     (if 0 \<le> y \<and> y \<le> 9999 then padded 4 y
      else (if y < 0 then ''-'' else ''+'') @ padded 6 \<bar>y\<bar>)"

definition toISOString :: "int \<Rightarrow> string" where
  "toISOString t =
     (let ms = TimeWithinDay t
      in isoYear (YearFromTime t) @ ''-'' @ padded 2 (MonthFromTime t + 1) @ ''-''
           @ padded 2 (DateFromTime t) @ ''T'' @ padded 2 (ms div 3600000) @ '':''
           @ padded 2 (ms div 60000 mod 60) @ '':'' @ padded 2 (ms div 1000 mod 60) @ ''.''
           @ padded 3 (ms mod 1000) @ ''Z'')"

text \<open>
  A clock for the examples: the time value of a timestamp of the form that
  \<^verbatim>\<open>toISOString\<close> writes (\<^verbatim>\<open>YYYY-MM-DDTHH:mm:ss.sssZ\<close>), and \<^verbatim>\<open>NaN\<close> for every other
  string. (The platform reads some other forms as well; the examples have none.)
\<close>

definition digitOf :: "char \<Rightarrow> int option" where
  "digitOf c =
     (let n = (of_char c :: nat) in if 48 \<le> n \<and> n \<le> 57 then Some (int n - 48) else None)"

fun readDigits :: "int \<Rightarrow> string \<Rightarrow> int option" where
  "readDigits acc [] = Some acc"
| "readDigits acc (c # cs) =
     (case digitOf c of None \<Rightarrow> None | Some d \<Rightarrow> readDigits (10 * acc + d) cs)"

definition digits :: "nat \<Rightarrow> nat \<Rightarrow> string \<Rightarrow> int option" where
  "digits start width s = readDigits 0 (take width (drop start s))"

definition exampleClock :: clock where
  "exampleClock s =
     (if length s = 24 \<and> map (\<lambda>i. s ! i) [4, 7, 10, 13, 16, 19, 23] = ''--T::.Z''
      then
        (case (digits 0 4 s, digits 5 2 s, digits 8 2 s, digits 11 2 s, digits 14 2 s,
               digits 17 2 s, digits 20 3 s) of
           (Some y, Some mo, Some d, Some h, Some mi, Some sec, Some ms) \<Rightarrow>
             if 1 \<le> mo \<and> mo \<le> 12 \<and> 1 \<le> d \<and> d \<le> daysInMonth y (mo - 1) \<and> h \<le> 23
                \<and> mi \<le> 59 \<and> sec \<le> 59
             then Some (MakeDate (MakeDay y (mo - 1) d) (MakeTime h mi sec ms))
             else None
         | _ \<Rightarrow> None)
      else None)"

section \<open>Strings\<close>

text \<open>\<^verbatim>\<open>String.prototype.trim\<close>: white space and line terminators are stripped from both
  ends (tab, line feed, vertical tab, form feed, carriage return, space, no-break
  space).\<close>

definition isWhiteSpace :: "char \<Rightarrow> bool" where
  "isWhiteSpace c = ((of_char c :: nat) \<in> set [9, 10, 11, 12, 13, 32, 160])"

definition trim :: "string \<Rightarrow> string" where
  "trim s = rev (dropWhile isWhiteSpace (rev (dropWhile isWhiteSpace s)))"

section \<open>The state module\<close>

text \<open>
  The calls that the views make to the state module and to their callbacks, in the order
  in which they are made. A call that returns a value is recorded with that value.
\<close>

datatype StatusType = Info | Warning | Error

datatype call =
    CanAffordSoil int bool
  | SpendSoil int bool
  | GraftFromLeaf string string
  | GraftSprout string string
  | WasShoneThisWeek string bool
  | CanAffordSun bool
  | SpendSun bool
  | AddSunEntry string
  | OnSoilChange
  | OnSave
  | OnClose
  | OnSetStatus string StatusType
  | Render

text \<open>
  Modelled from the spec: the state of the module \<^verbatim>\<open>../state\<close> (the resource ledger of
  section 4.1 and the Sprouts and reflection entries of each Twig, section 3), whose
  source is absent, and its operations below.
\<close>

record AppState =
  soilAvailable :: int
  sunAvailable :: int
  sunCapacity :: int
  twigSprouts :: "string \<Rightarrow> Sprout list"
  twigSunEntries :: "string \<Rightarrow> JournalEntry list"
  calls :: "call list"

text \<open>What the platform and the absent parts of the repository supply: the cost table
  (\<^verbatim>\<open>calculateSoilCost\<close>), the clock, the time zone, the
  identifier of the next Sprout, the test for the current calendar week (its boundary
  is left open by the specification) and the prompts of the asset file.\<close>

record Platform =
  calculateSoilCost :: "SproutSeason \<Rightarrow> SproutEnvironment \<Rightarrow> int"
  clockNow :: int
  timeZone :: TimeZone
  nextSproutId :: string
  inCurrentWeek :: "string \<Rightarrow> bool"
  sunPrompts :: "string list"

definition logCall :: "call \<Rightarrow> 'a AppState_scheme \<Rightarrow> 'a AppState_scheme" where
  "logCall c w = w\<lparr>calls := calls w @ [c]\<rparr>"

text \<open>The calls made between two states.\<close>

definition newCalls :: "'a AppState_scheme \<Rightarrow> 'a AppState_scheme \<Rightarrow> call list" where
  "newCalls w w' = drop (length (calls w)) (calls w')"

text \<open>Modelled from the spec: \<^verbatim>\<open>canAffordSoil\<close> is \<open>cost \<le> availableSoil()\<close>.\<close>

definition canAffordSoil :: "int \<Rightarrow> 'a AppState_scheme \<Rightarrow> bool \<times> 'a AppState_scheme" where
  "canAffordSoil cost w =
     (let ok = (cost \<le> soilAvailable w) in (ok, logCall (CanAffordSoil cost ok) w))"

text \<open>Modelled from the spec: \<^verbatim>\<open>spendSoil\<close> fails without effect when the cost exceeds
  the available soil, and decrements the available soil by the cost otherwise. The
  boolean is the outcome.\<close>

definition spendSoil :: "int \<Rightarrow> 'a AppState_scheme \<Rightarrow> bool \<times> 'a AppState_scheme" where
  "spendSoil cost w =
     (if soilAvailable w < cost then (False, logCall (SpendSoil cost False) w)
      else (True, logCall (SpendSoil cost True) (w\<lparr>soilAvailable := soilAvailable w - cost\<rparr>)))"

text \<open>Modelled from the spec: \<^verbatim>\<open>canAffordSun\<close> and \<^verbatim>\<open>spendSun\<close> are the same with the
  fixed cost of one sun.\<close>

definition canAffordSun :: "'a AppState_scheme \<Rightarrow> bool \<times> 'a AppState_scheme" where
  "canAffordSun w = (let ok = (1 \<le> sunAvailable w) in (ok, logCall (CanAffordSun ok) w))"

definition spendSun :: "'a AppState_scheme \<Rightarrow> bool \<times> 'a AppState_scheme" where
  "spendSun w =
     (if sunAvailable w < 1 then (False, logCall (SpendSun False) w)
      else (True, logCall (SpendSun True) (w\<lparr>sunAvailable := sunAvailable w - 1\<rparr>)))"

text \<open>Modelled from the spec: \<^verbatim>\<open>wasShoneThisWeek\<close> scans the reflection entries of the
  Twig for a timestamp within the current calendar week.\<close>

definition wasShoneThisWeek ::
  "Platform \<Rightarrow> string \<Rightarrow> 'a AppState_scheme \<Rightarrow> bool \<times> 'a AppState_scheme" where
  "wasShoneThisWeek pf twigId w =
     (let shone = list_ex (\<lambda>e. inCurrentWeek pf (j_timestamp e)) (twigSunEntries w twigId)
      in (shone, logCall (WasShoneThisWeek twigId shone) w))"

text \<open>Modelled from the spec: \<^verbatim>\<open>addSunEntry\<close> appends one reflection entry, stamped with
  the current time, to the entries of the Twig.\<close>

definition addSunEntry ::
  "Platform \<Rightarrow> string \<Rightarrow> string \<Rightarrow> string option \<Rightarrow> 'a AppState_scheme \<Rightarrow> 'a AppState_scheme" where
  "addSunEntry pf twigId content prompt w =
     logCall (AddSunEntry twigId)
       (w\<lparr>twigSunEntries := (twigSunEntries w)
            (twigId := twigSunEntries w twigId @
               [\<lparr>j_timestamp = toISOString (clockNow pf), j_content = content,
                 j_prompt = prompt\<rparr>])\<rparr>)"

text \<open>The object literal that \<^verbatim>\<open>doGraft\<close> hands to the state module.\<close>

record GraftAttrs =
  g_title :: string
  g_season :: SproutSeason
  g_environment :: SproutEnvironment
  g_state :: SproutState
  g_soilCost :: int
  g_activatedAt :: string
  g_endDate :: string

definition plantedSprout :: "Platform \<Rightarrow> GraftAttrs \<Rightarrow> string option \<Rightarrow> string option \<Rightarrow> Sprout" where
  "plantedSprout pf attrs leaf origin =
     \<lparr>sprout_id = nextSproutId pf, title = g_title attrs, season = g_season attrs,
      environment = g_environment attrs, state = g_state attrs, soilCost = g_soilCost attrs,
      createdAt = toISOString (clockNow pf), activatedAt = Some (g_activatedAt attrs),
      endDate = Some (g_endDate attrs), completedAt = None, graftedFromId = origin,
      leafId = leaf, waterEntries = None, sunEntries = None, result = None,
      reflection = None\<rparr>"

text \<open>Modelled from the spec: \<^verbatim>\<open>graftFromLeaf\<close> creates a Sprout on the leaf and appends
  it to the Sprouts of the Twig; \<^verbatim>\<open>graftSprout\<close> (earlier revision) does so with the
  origin Sprout as \<open>graftedFromId\<close>, on the leaf of the origin.\<close>

definition graftFromLeaf ::
  "Platform \<Rightarrow> string \<Rightarrow> string \<Rightarrow> GraftAttrs \<Rightarrow> 'a AppState_scheme \<Rightarrow> 'a AppState_scheme" where
  "graftFromLeaf pf twigId leaf attrs w =
     logCall (GraftFromLeaf twigId leaf)
       (w\<lparr>twigSprouts := (twigSprouts w)
            (twigId := twigSprouts w twigId @ [plantedSprout pf attrs (Some leaf) None])\<rparr>)"

definition graftSprout ::
  "Platform \<Rightarrow> string \<Rightarrow> string \<Rightarrow> GraftAttrs \<Rightarrow> 'a AppState_scheme \<Rightarrow> 'a AppState_scheme" where
  "graftSprout pf twigId origin attrs w =
     logCall (GraftSprout twigId origin)
       (w\<lparr>twigSprouts := (twigSprouts w)
            (twigId := twigSprouts w twigId @
               [plantedSprout pf attrs
                  (case find (\<lambda>s. sprout_id s = origin) (twigSprouts w twigId) of
                     None \<Rightarrow> None | Some p \<Rightarrow> leafId p)
                  (Some origin)])\<rparr>)"

section \<open>The graft form (leaf-view.ts)\<close>

text \<open>
  The variables of the closure of \<^verbatim>\<open>buildLeafView\<close> and the parts of the document that
  the graft handlers read and write: the value of the title input (\<open>None\<close> when the
  element is not in the document) and whether the form and its trigger are hidden.
  \<open>graftFromSproutId\<close> belongs to the earlier revision.
\<close>

record LeafView = AppState +
  currentTwigId :: "string option"
  currentLeafId :: "string option"
  graftFromSproutId :: "string option"
  selectedSeason :: "SproutSeason option"
  selectedEnvironment :: "SproutEnvironment option"
  graftTitleInput :: "string option"
  graftFormHidden :: bool
  graftTriggerHidden :: bool

definition hideGraftForm :: "LeafView \<Rightarrow> LeafView" where
  "hideGraftForm w =
     (case graftTitleInput w of
        None \<Rightarrow> w
      | Some v \<Rightarrow>
          w\<lparr>graftFormHidden := True, graftTriggerHidden := False, graftTitleInput := Some [],
            selectedSeason := None, selectedEnvironment := None\<rparr>)"

text \<open>\<^verbatim>\<open>doGraft\<close> of \<^verbatim>\<open>src/ui/leaf-view.ts\<close>. The callbacks are recorded as calls; what
  they do is the caller's.\<close>

definition doGraft :: "Platform \<Rightarrow> LeafView \<Rightarrow> LeafView" where
  "doGraft pf w =
     (case (currentTwigId w, currentLeafId w, selectedSeason w, selectedEnvironment w) of
        (Some twig, Some leaf, Some sn, Some en) \<Rightarrow>
          if twig = [] \<or> leaf = [] then w
          else (case graftTitleInput w of
            None \<Rightarrow> w
          | Some v \<Rightarrow>
              let ttl = trim v in
              if ttl = [] then w
              else
                let cost = calculateSoilCost pf sn en;
                    (ok, w1) = canAffordSoil cost w
                in if \<not> ok then w1
                   else
                     let (spent, w2) = spendSoil cost w1;
                         w3 = logCall OnSoilChange w2;
                         endD = getEndDate (timeZone pf) sn (clockNow pf);
                         now = toISOString (clockNow pf);
                         w4 = graftFromLeaf pf twig leaf
                                \<lparr>g_title = ttl, g_season = sn, g_environment = en,
                                 g_state = Active, g_soilCost = cost, g_activatedAt = now,
                                 g_endDate = toISOString endD\<rparr> w3;
                         w5 = hideGraftForm w4;
                         w6 = logCall OnSave w5
                     in logCall OnClose w6)
      | _ \<Rightarrow> w)"

text \<open>The earlier revision (\<^verbatim>\<open>part_000\<close>): the graft is chained from
  \<open>graftFromSproutId\<close>, and the view renders itself again (recorded as the call
  \<open>Render\<close>). The handlers of that revision are wired after the form has been put into
  the markup, so the title input is there when \<^verbatim>\<open>doGraft\<close> runs; without it the model
  returns the state as it is.\<close>

definition hideGraftForm0 :: "LeafView \<Rightarrow> LeafView" where
  "hideGraftForm0 w =
     w\<lparr>graftFormHidden := True, graftTitleInput := Some [], selectedSeason := None,
       selectedEnvironment := None, graftFromSproutId := None\<rparr>"

definition doGraft0 :: "Platform \<Rightarrow> LeafView \<Rightarrow> LeafView" where
  "doGraft0 pf w =
     (case (currentTwigId w, graftFromSproutId w, selectedSeason w, selectedEnvironment w) of
        (Some twig, Some origin, Some sn, Some en) \<Rightarrow>
          if twig = [] \<or> origin = [] then w
          else (case graftTitleInput w of
            None \<Rightarrow> w
          | Some v \<Rightarrow>
              let ttl = trim v in
              if ttl = [] then w
              else
                let cost = calculateSoilCost pf sn en;
                    (ok, w1) = canAffordSoil cost w
                in if \<not> ok then w1
                   else
                     let (spent, w2) = spendSoil cost w1;
                         w3 = logCall OnSoilChange w2;
                         endD = getEndDate (timeZone pf) sn (clockNow pf);
                         now = toISOString (clockNow pf);
                         w4 = graftSprout pf twig origin
                                \<lparr>g_title = ttl, g_season = sn, g_environment = en,
                                 g_state = Active, g_soilCost = cost, g_activatedAt = now,
                                 g_endDate = toISOString endD\<rparr> w3;
                         w5 = hideGraftForm0 w4;
                         w6 = logCall Render w5
                     in logCall OnSave w6)
      | _ \<Rightarrow> w)"

text \<open>
  A spend is guarded in a sequence of calls when every \<^verbatim>\<open>spendSoil(c)\<close> in it succeeded
  and comes after a \<^verbatim>\<open>canAffordSoil(c)\<close>, for the same \<open>c\<close>, that returned true.
\<close>

fun spendGuarded :: "call list \<Rightarrow> call list \<Rightarrow> bool" where
  "spendGuarded seen [] = True"
| "spendGuarded seen (SpendSoil c ok # cs) =
     (ok \<and> CanAffordSoil c True \<in> set seen \<and> spendGuarded (seen @ [SpendSoil c ok]) cs)"
| "spendGuarded seen (c # cs) = spendGuarded (seen @ [c]) cs"

text \<open>The cost that \<^verbatim>\<open>doGraft\<close> computes from the selected season and environment.\<close>

definition selectedCost :: "Platform \<Rightarrow> LeafView \<Rightarrow> int option" where
  "selectedCost pf w =
     (case (selectedSeason w, selectedEnvironment w) of
        (Some sn, Some en) \<Rightarrow> Some (calculateSoilCost pf sn en)
      | _ \<Rightarrow> None)"

section \<open>Rendering the log (leaf-view.ts)\<close>

text \<open>
  \<^verbatim>\<open>render\<close> assigns a string of markup to \<^verbatim>\<open>logEl.innerHTML\<close>. The strings below are
  the template literals of the source, without the white space that stands between
  their tags; the characters outside ASCII are written as the bytes of their UTF-8
  encoding. A template literal writes an \<^verbatim>\<open>undefined\<close> value as the text
  \<^verbatim>\<open>undefined\<close>. Nothing is escaped.
\<close>

definition getSeasonLabel :: "SproutSeason \<Rightarrow> string" where
  "getSeasonLabel sn =
     (case sn of S1w \<Rightarrow> ''1 week'' | S2w \<Rightarrow> ''2 weeks'' | S1m \<Rightarrow> ''1 month''
      | S3m \<Rightarrow> ''3 months'' | S6m \<Rightarrow> ''6 months'' | S1y \<Rightarrow> ''1 year'')"

definition getEnvironmentLabel :: "SproutEnvironment \<Rightarrow> string" where
  "getEnvironmentLabel en =
     (case en of Fertile \<Rightarrow> ''Fertile'' | Firm \<Rightarrow> ''Firm'' | Barren \<Rightarrow> ''Barren'')"

definition getResultEmoji :: "int \<Rightarrow> string" where
  "getResultEmoji r =
     (if r = 1 then [CHR 0xF0, CHR 0x9F, CHR 0xA5, CHR 0x80]
      else if r = 2 then [CHR 0xF0, CHR 0x9F, CHR 0x8C, CHR 0xB1]
      else if r = 3 then [CHR 0xF0, CHR 0x9F, CHR 0x8C, CHR 0xBF]
      else if r = 4 then [CHR 0xF0, CHR 0x9F, CHR 0x8C, CHR 0xB3]
      else if r = 5 then [CHR 0xF0, CHR 0x9F, CHR 0x8C, CHR 0xB2]
      else [CHR 0xF0, CHR 0x9F, CHR 0x8C, CHR 0xB1])"

text \<open>The text of a value in a template literal: a string as it is, an integer in
  decimal digits, \<^verbatim>\<open>undefined\<close> by its name.\<close>

definition interpolate :: "string option \<Rightarrow> string" where
  "interpolate v = (case v of None \<Rightarrow> ''undefined'' | Some s \<Rightarrow> s)"

fun decimal :: "nat \<Rightarrow> string" where
  "decimal n =
     (if n < 10 then [char_of (48 + n)] else decimal (n div 10) @ [char_of (48 + n mod 10)])"

declare decimal.simps [simp del]

definition numberToString :: "int \<Rightarrow> string" where
  "numberToString n = (if n < 0 then ''-'' @ decimal (nat (- n)) else decimal (nat n))"

text \<open>\<^verbatim>\<open>formatDateTime\<close> writes a timestamp in the words of the locale
  (\<^verbatim>\<open>toLocaleTimeString\<close>, \<^verbatim>\<open>toLocaleDateString\<close>) relative to the clock of the state
  module: it is the parameter \<open>formatDateTime\<close> of the model.\<close>

type_synonym formatter = "string \<Rightarrow> string"

text \<open>\<^verbatim>\<open>renderLogEntry\<close> of \<^verbatim>\<open>src/ui/leaf-view.ts\<close>.\<close>

definition entryHeader :: "string \<Rightarrow> string \<Rightarrow> string" where
  "entryHeader label timeStr =
     ''<div class=\"log-entry-header\"><span class=\"log-entry-type\">'' @ label
       @ ''</span><span class=\"log-entry-time\">'' @ timeStr @ ''</span></div>''"

definition promptParagraph :: "LogEntry \<Rightarrow> string" where
  "promptParagraph entry =
     (if truthy (d_prompt (data entry))
      then ''<p class=\"log-entry-prompt\">'' @ interpolate (d_prompt (data entry)) @ ''</p>''
      else [])"

definition reflectionParagraph :: "LogEntry \<Rightarrow> string" where
  "reflectionParagraph entry =
     (if truthy (d_reflection (data entry))
      then ''<p class=\"log-entry-reflection\">\"'' @ interpolate (d_reflection (data entry)) @ ''\"</p>''
      else [])"

definition renderLogEntry :: "formatter \<Rightarrow> LogEntry \<Rightarrow> string" where
  "renderLogEntry formatDateTime entry =
     (let timeStr = formatDateTime (timestamp entry)
      in case entryType entry of
        SproutStart \<Rightarrow>
          ''<div class=\"log-entry log-entry-start\" data-sprout-id=\"'' @ sproutId entry @ ''\">''
            @ entryHeader ''Planted'' timeStr
            @ ''<p class=\"log-entry-title\">'' @ sproutTitle entry @ ''</p>''
            @ ''<p class=\"log-entry-meta\">''
            @ interpolate (map_option getSeasonLabel (d_season (data entry)))
            @ '' '' @ [CHR 0xC2, CHR 0xB7] @ '' ''
            @ interpolate (map_option getEnvironmentLabel (d_environment (data entry)))
            @ ''</p></div>''
      | Watering \<Rightarrow>
          ''<div class=\"log-entry log-entry-water\" data-sprout-id=\"'' @ sproutId entry @ ''\">''
            @ entryHeader ''Watered'' timeStr
            @ promptParagraph entry
            @ ''<p class=\"log-entry-content\">'' @ interpolate (d_content (data entry)) @ ''</p></div>''
      | Shining \<Rightarrow>
          ''<div class=\"log-entry log-entry-shine\" data-sprout-id=\"'' @ sproutId entry @ ''\">''
            @ entryHeader ''Shone'' timeStr
            @ promptParagraph entry
            @ ''<p class=\"log-entry-content\">'' @ interpolate (d_content (data entry)) @ ''</p></div>''
      | Completion \<Rightarrow>
          (let isCompleted = (d_isSuccess (data entry) = Some True);
               emoji = getResultEmoji
                 (case d_result (data entry) of
                    None \<Rightarrow> 1 | Some r \<Rightarrow> if r = 0 then 1 else r)
           in ''<div class=\"log-entry log-entry-completion '' @ (if isCompleted then ''is-success'' else ''is-failed'')
                @ ''\" data-sprout-id=\"'' @ sproutId entry @ ''\">''
                @ entryHeader (if isCompleted then ''Harvested'' else ''Pruned'') timeStr
                @ ''<p class=\"log-entry-title\">'' @ sproutTitle entry @ ''</p>''
                @ ''<p class=\"log-entry-result\">'' @ emoji @ '' ''
                @ interpolate (map_option numberToString (d_result (data entry))) @ ''/5</p>''
                @ reflectionParagraph entry
                @ ''</div>'')
      | GraftOrigin \<Rightarrow>
          ''<div class=\"log-entry log-entry-graft\" data-sprout-id=\"'' @ sproutId entry @ ''\">''
            @ entryHeader ''Grafted'' timeStr
            @ ''<p class=\"log-entry-meta\">Continued from: ''
            @ interpolate (d_graftedFromTitle (data entry)) @ ''</p></div>'')"

text \<open>The buttons of the two selectors of the graft form:
  \<^verbatim>\<open>SEASONS.map(...).join('')\<close> and \<^verbatim>\<open>ENVIRONMENTS.map(...).join('')\<close>.\<close>

definition seasonName :: "SproutSeason \<Rightarrow> string" where
  "seasonName sn =
     (case sn of S1w \<Rightarrow> ''1w'' | S2w \<Rightarrow> ''2w'' | S1m \<Rightarrow> ''1m'' | S3m \<Rightarrow> ''3m''
      | S6m \<Rightarrow> ''6m'' | S1y \<Rightarrow> ''1y'')"

definition environmentName :: "SproutEnvironment \<Rightarrow> string" where
  "environmentName en =
     (case en of Fertile \<Rightarrow> ''fertile'' | Firm \<Rightarrow> ''firm'' | Barren \<Rightarrow> ''barren'')"

definition seasonButtons :: string where
  "seasonButtons =
     concat (map (\<lambda>s. ''<button type=\"button\" class=\"graft-season-btn\" data-season=\"'' @ seasonName s @ ''\">'' @ seasonName s @ ''</button>'')
       [S1w, S2w, S1m, S3m, S6m, S1y])"

definition environmentButtons :: string where
  "environmentButtons =
     concat (map (\<lambda>e. ''<button type=\"button\" class=\"graft-env-btn\" data-env=\"'' @ environmentName e @ ''\">'' @ getEnvironmentLabel e
                        @ ''</button>'')
       [Fertile, Firm, Barren])"

text \<open>\<^verbatim>\<open>renderGraftForm\<close> of \<^verbatim>\<open>src/ui/leaf-view.ts\<close>: "Only show graft option if there's
  no active sprout on this leaf".\<close>

definition renderGraftForm :: "bool \<Rightarrow> string" where
  "renderGraftForm hasActiveSprout =
     (if hasActiveSprout then []
      else
        ''<div class=\"log-graft-section\">''
            @ ''<button type=\"button\" class=\"log-graft-trigger\">Graft</button>''
            @ ''<div class=\"log-graft-form hidden\">''
            @ ''<input type=\"text\" class=\"graft-title-input\" placeholder=\"What's the new goal?\" maxlength=\"60\" />''
            @ ''<div class=\"graft-selectors\"><div class=\"graft-season-selector\">''
          @ seasonButtons @ ''</div><div class=\"graft-env-selector\">''
          @ environmentButtons @ ''</div></div><div class=\"graft-footer\">''
              @ ''<span class=\"graft-soil-cost\"></span>''
              @ ''<div class=\"graft-actions action-btn-group\">''
              @ ''<button type=\"button\" class=\"action-btn action-btn-passive action-btn-neutral graft-cancel-btn\">Cancel''
              @ ''</button>''
              @ ''<button type=\"button\" class=\"action-btn action-btn-progress action-btn-twig graft-confirm-btn\" disabled>Plant''
              @ ''</button></div></div></div></div>'')"

definition emptyNotice :: string where
  "emptyNotice = ''<p class=\"log-empty\">No activity yet.</p>''"

text \<open>\<^verbatim>\<open>render\<close> of \<^verbatim>\<open>src/ui/leaf-view.ts\<close>, for the Sprouts that \<^verbatim>\<open>getSprouts()\<close> returns:
  the string that it assigns to \<^verbatim>\<open>logEl.innerHTML\<close>. (The repair of a missing leaf
  record is a write to the state module and leaves the markup as it is.)\<close>

definition render :: "clock \<Rightarrow> formatter \<Rightarrow> Sprout list \<Rightarrow> string" where
  "render getTime formatDateTime sprouts =
     (if sprouts = [] then emptyNotice
      else
        let logEntries = buildUnifiedLog getTime sprouts
        in if logEntries = [] then emptyNotice
           else
             let hasActiveSprout = list_ex (\<lambda>s. state s = Active) sprouts
             in renderGraftForm hasActiveSprout
                  @ concat (map (renderLogEntry formatDateTime) logEntries))"

text \<open>The earlier revision (\<^verbatim>\<open>part_000\<close>): the form is always in the markup, hidden,
  and the card of a completion that was a success, of a Sprout that is found, carries
  the button \<^verbatim>\<open>Graft\<close> that opens the form. That revision has no entries of the type
  \<^verbatim>\<open>shining\<close>.\<close>

definition renderGraftForm0 :: string where
  "renderGraftForm0 =
     ''<div class=\"log-graft-form hidden\">''
         @ ''<input type=\"text\" class=\"graft-title-input\" placeholder=\"Continue the journey...\" maxlength=\"60\" />''
         @ ''<div class=\"graft-selectors\"><div class=\"graft-season-selector\">''
       @ seasonButtons @ ''</div><div class=\"graft-env-selector\">''
       @ environmentButtons @ ''</div></div><div class=\"graft-footer\">''
           @ ''<span class=\"graft-soil-cost\"></span><div class=\"graft-actions\">''
           @ ''<button type=\"button\" class=\"graft-cancel-btn\">Cancel</button>''
           @ ''<button type=\"button\" class=\"graft-confirm-btn\" disabled>Graft''
           @ ''</button></div></div></div>''"

definition renderLogEntry0 :: "formatter \<Rightarrow> LogEntry \<Rightarrow> Sprout list \<Rightarrow> string" where
  "renderLogEntry0 formatDateTime entry sprouts =
     (let timeStr = formatDateTime (timestamp entry)
      in case entryType entry of
        SproutStart \<Rightarrow>
          ''<div class=\"log-entry log-entry-start\" data-sprout-id=\"'' @ sproutId entry @ ''\">''
            @ entryHeader ''Planted'' timeStr
            @ ''<p class=\"log-entry-title\">'' @ sproutTitle entry @ ''</p>''
            @ ''<p class=\"log-entry-meta\">''
            @ interpolate (map_option getSeasonLabel (d_season (data entry)))
            @ '' '' @ [CHR 0xC2, CHR 0xB7] @ '' ''
            @ interpolate (map_option getEnvironmentLabel (d_environment (data entry)))
            @ ''</p></div>''
      | Watering \<Rightarrow>
          ''<div class=\"log-entry log-entry-water\" data-sprout-id=\"'' @ sproutId entry @ ''\">''
            @ entryHeader ''Watered'' timeStr
            @ promptParagraph entry
            @ ''<p class=\"log-entry-content\">'' @ interpolate (d_content (data entry)) @ ''</p></div>''
      | Completion \<Rightarrow>
          (let sprout = find (\<lambda>s. sprout_id s = sproutId entry) sprouts;
               isCompleted = (d_isSuccess (data entry) = Some True);
               emoji = getResultEmoji
                 (case d_result (data entry) of
                    None \<Rightarrow> 1 | Some r \<Rightarrow> if r = 0 then 1 else r)
           in ''<div class=\"log-entry log-entry-completion '' @ (if isCompleted then ''is-success'' else ''is-failed'')
                @ ''\" data-sprout-id=\"'' @ sproutId entry @ ''\">''
                @ entryHeader (if isCompleted then ''Harvested'' else ''Pruned'') timeStr
                @ ''<p class=\"log-entry-title\">'' @ sproutTitle entry @ ''</p>''
                @ ''<p class=\"log-entry-result\">'' @ emoji @ '' ''
                @ interpolate (map_option numberToString (d_result (data entry))) @ ''/5</p>''
                @ reflectionParagraph entry
                @ (if isCompleted \<and> sprout \<noteq> None
                   then ''<button type=\"button\" class=\"log-graft-btn\" data-sprout-id=\"'' @ sproutId entry @ ''\">Graft</button>''
                   else [])
                @ ''</div>'')
      | GraftOrigin \<Rightarrow>
          ''<div class=\"log-entry log-entry-graft\" data-sprout-id=\"'' @ sproutId entry @ ''\">''
            @ entryHeader ''Grafted'' timeStr
            @ ''<p class=\"log-entry-meta\">Continued from: ''
            @ interpolate (d_graftedFromTitle (data entry)) @ ''</p></div>''
      | Shining \<Rightarrow> [])"

text \<open>\<open>None\<close>: the leaf is not found and \<^verbatim>\<open>render\<close> returns without assigning.\<close>

definition render0 :: "clock \<Rightarrow> formatter \<Rightarrow> bool \<Rightarrow> Sprout list \<Rightarrow> string option" where
  "render0 getTime formatDateTime leafFound sprouts =
     (if \<not> leafFound then None
      else
        let logEntries = buildUnifiedLog0 getTime sprouts
        in if logEntries = [] then Some emptyNotice
           else Some (renderGraftForm0
                        @ concat (map (\<lambda>e. renderLogEntry0 formatDateTime e sprouts)
                                    logEntries)))"

subsection \<open>The document and its handlers\<close>

text \<open>
  The tree that the platform builds from the markup, as far as the handlers look at it:
  its elements in document order, each with its tag name and its attributes. Building
  it is the platform's (the HTML parser): the parameter \<open>parseHTML\<close> of the model.
\<close>

record element =
  tagName :: string
  attributes :: "(string \<times> string) list"

type_synonym parser = "string \<Rightarrow> element list"

definition getAttribute :: "string \<Rightarrow> element \<Rightarrow> string option" where
  "getAttribute name el = map_of (attributes el) name"

text \<open>The class names of an element: the words of its \<^verbatim>\<open>class\<close> attribute.\<close>

fun wordsOf :: "string \<Rightarrow> string \<Rightarrow> string list" where
  "wordsOf w [] = (if w = [] then [] else [w])"
| "wordsOf w (c # cs) =
     (if c = CHR '' '' then (if w = [] then [] else [w]) @ wordsOf [] cs
      else wordsOf (w @ [c]) cs)"

definition classList :: "element \<Rightarrow> string list" where
  "classList el = wordsOf [] (orElse (getAttribute ''class'' el) [])"

text \<open>\<^verbatim>\<open>querySelectorAll('.name')\<close> and \<^verbatim>\<open>querySelector('.name')\<close>.\<close>

definition querySelectorAll :: "string \<Rightarrow> element list \<Rightarrow> element list" where
  "querySelectorAll name els = filter (\<lambda>el. name \<in> set (classList el)) els"

definition querySelector :: "string \<Rightarrow> element list \<Rightarrow> element option" where
  "querySelector name els = find (\<lambda>el. name \<in> set (classList el)) els"

text \<open>
  What an event on an element does: the listeners that \<^verbatim>\<open>wireLogEvents\<close> adds. The
  listener of a season or environment button selects the value of the button's
  \<^verbatim>\<open>data-season\<close> or \<^verbatim>\<open>data-env\<close> attribute; the listener of a graft button of the
  earlier revision opens the form for the Sprout of its \<^verbatim>\<open>data-sprout-id\<close> attribute.
\<close>

datatype listener =
    ShowGraftForm
  | UpdateGraftFormState
  | SelectSeason "string option"
  | SelectEnvironment "string option"
  | HideGraftForm
  | DoGraft
  | OpenGraftFrom "string option"

text \<open>\<^verbatim>\<open>el?.addEventListener(...)\<close>.\<close>

definition listen :: "element option \<Rightarrow> listener \<Rightarrow> (element \<times> listener) list" where
  "listen el l = (case el of None \<Rightarrow> [] | Some e \<Rightarrow> [(e, l)])"

text \<open>\<^verbatim>\<open>wireLogEvents\<close> of \<^verbatim>\<open>src/ui/leaf-view.ts\<close>, on the elements of the log: "Exit
  early if no graft section (has active sprout)".\<close>

definition wireLogEvents :: "element list \<Rightarrow> (element \<times> listener) list" where
  "wireLogEvents logEl =
     (let graftTrigger = querySelector ''log-graft-trigger'' logEl;
          graftForm = querySelector ''log-graft-form'' logEl;
          graftTitleInput = querySelector ''graft-title-input'' logEl;
          graftSeasonBtns = querySelectorAll ''graft-season-btn'' logEl;
          graftEnvBtns = querySelectorAll ''graft-env-btn'' logEl;
          graftCancelBtn = querySelector ''graft-cancel-btn'' logEl;
          graftConfirmBtn = querySelector ''graft-confirm-btn'' logEl
      in if graftForm = None \<or> graftTitleInput = None then []
         else
           listen graftTrigger ShowGraftForm
             @ listen graftTitleInput UpdateGraftFormState
             @ map (\<lambda>btn. (btn, SelectSeason (getAttribute ''data-season'' btn))) graftSeasonBtns
             @ map (\<lambda>btn. (btn, SelectEnvironment (getAttribute ''data-env'' btn))) graftEnvBtns
             @ listen graftCancelBtn HideGraftForm
             @ listen graftConfirmBtn DoGraft)"

text \<open>
  \<^verbatim>\<open>wireLogEvents\<close> of the earlier revision, which takes the elements of the form to be
  there (\<^verbatim>\<open>querySelector(...)!\<close>): the listeners that it has added when it returns, or
  when \<^verbatim>\<open>addEventListener\<close> is called on \<^verbatim>\<open>null\<close> and throws.
\<close>

definition wireLogEvents0 :: "element list \<Rightarrow> (element \<times> listener) list" where
  "wireLogEvents0 logEl =
     (let graftTitleInput = querySelector ''graft-title-input'' logEl;
          graftSeasonBtns = querySelectorAll ''graft-season-btn'' logEl;
          graftEnvBtns = querySelectorAll ''graft-env-btn'' logEl;
          graftCancelBtn = querySelector ''graft-cancel-btn'' logEl;
          graftConfirmBtn = querySelector ''graft-confirm-btn'' logEl
      in map (\<lambda>btn. (btn, OpenGraftFrom (getAttribute ''data-sprout-id'' btn)))
           (querySelectorAll ''log-graft-btn'' logEl)
         @ (case graftTitleInput of
              None \<Rightarrow> []
            | Some inp \<Rightarrow>
                (inp, UpdateGraftFormState)
                  # map (\<lambda>btn. (btn, SelectSeason (getAttribute ''data-season'' btn)))
                      graftSeasonBtns
                  @ map (\<lambda>btn. (btn, SelectEnvironment (getAttribute ''data-env'' btn)))
                      graftEnvBtns
                  @ (case graftCancelBtn of
                       None \<Rightarrow> []
                     | Some cancel \<Rightarrow> (cancel, HideGraftForm) # listen graftConfirmBtn DoGraft)))"

subsection \<open>An example of the platform\<close>

text \<open>
  A parser for the examples. It reads the start tags of the markup, with their
  attributes (a name, or a name and a value that stands between quotation marks or runs
  to the next blank), and passes over end tags and text; that is what the HTML parser
  does with markup that, like the examples', has no comments, no character references
  and no elements with raw text.
\<close>

datatype mode =
    InText | TagOpen | Skipped | InTagName | BeforeAttribute | InAttributeName
  | AfterEquals | InQuotedValue | InUnquotedValue

definition isBlank :: "char \<Rightarrow> bool" where
  "isBlank c = (c = CHR '' '' \<or> c = CHR 0x0A \<or> c = CHR 0x09 \<or> c = CHR ''/'')"

definition isLetter :: "char \<Rightarrow> bool" where
  "isLetter c =
     (let n = (of_char c :: nat) in (65 \<le> n \<and> n \<le> 90) \<or> (97 \<le> n \<and> n \<le> 122))"

text \<open>The state of the parser: its mode, the tag name and the attributes read so far,
  and the name and the value of the attribute that is being read. One step reads one
  character and gives the element that the character completes, if it completes one.\<close>

type_synonym scanner = "mode \<times> string \<times> (string \<times> string) list \<times> string \<times> string"

definition inText :: scanner where
  "inText = (InText, [], [], [], [])"

definition step :: "scanner \<Rightarrow> char \<Rightarrow> element list \<times> scanner" where
  "step st c =
     (case st of (m, tg, ats, an, av) \<Rightarrow>
        (case m of
           InText \<Rightarrow>
             if c = CHR ''<'' then ([], (TagOpen, [], [], [], [])) else ([], inText)
         | TagOpen \<Rightarrow>
             if isLetter c then ([], (InTagName, [c], [], [], []))
             else if c = CHR ''>'' then ([], inText)
             else ([], (Skipped, [], [], [], []))
         | Skipped \<Rightarrow>
             if c = CHR ''>'' then ([], inText) else ([], (Skipped, [], [], [], []))
         | InTagName \<Rightarrow>
             if c = CHR ''>'' then ([\<lparr>tagName = tg, attributes = ats\<rparr>], inText)
             else if isBlank c then ([], (BeforeAttribute, tg, ats, [], []))
             else ([], (InTagName, tg @ [c], ats, [], []))
         | BeforeAttribute \<Rightarrow>
             if c = CHR ''>'' then ([\<lparr>tagName = tg, attributes = ats\<rparr>], inText)
             else if isBlank c then ([], (BeforeAttribute, tg, ats, [], []))
             else ([], (InAttributeName, tg, ats, [c], []))
         | InAttributeName \<Rightarrow>
             if c = CHR ''='' then ([], (AfterEquals, tg, ats, an, []))
             else if c = CHR ''>''
             then ([\<lparr>tagName = tg, attributes = ats @ [(an, [])]\<rparr>], inText)
             else if isBlank c then ([], (BeforeAttribute, tg, ats @ [(an, [])], [], []))
             else ([], (InAttributeName, tg, ats, an @ [c], []))
         | AfterEquals \<Rightarrow>
             if c = CHR ''\"'' then ([], (InQuotedValue, tg, ats, an, []))
             else if c = CHR ''>''
             then ([\<lparr>tagName = tg, attributes = ats @ [(an, [])]\<rparr>], inText)
             else ([], (InUnquotedValue, tg, ats, an, [c]))
         | InQuotedValue \<Rightarrow>
             if c = CHR ''\"'' then ([], (BeforeAttribute, tg, ats @ [(an, av)], [], []))
             else ([], (InQuotedValue, tg, ats, an, av @ [c]))
         | InUnquotedValue \<Rightarrow>
             if c = CHR ''>''
             then ([\<lparr>tagName = tg, attributes = ats @ [(an, av)]\<rparr>], inText)
             else if c = CHR '' '' then ([], (BeforeAttribute, tg, ats @ [(an, av)], [], []))
             else ([], (InUnquotedValue, tg, ats, an, av @ [c]))))"

fun scan :: "scanner \<Rightarrow> string \<Rightarrow> element list" where
  "scan st [] = []"
| "scan st (c # cs) = fst (step st c) @ scan (snd (step st c)) cs"

definition exampleParser :: parser where
  "exampleParser markup = scan inText markup"

text \<open>A formatter for the examples: the date of the timestamp.\<close>

definition plainDate :: formatter where
  "plainDate ts = take 10 ts"





section \<open>The shine dialog (shine-dialog.ts)\<close>

text \<open>\<^verbatim>\<open>RECENT_SUN_PROMPT_LIMIT\<close>, from the prompts of the asset file.\<close>

definition RECENT_SUN_PROMPT_LIMIT :: "string list \<Rightarrow> nat" where
  "RECENT_SUN_PROMPT_LIMIT prompts = min 10 (length prompts div 3)"

text \<open>
  A value of \<^verbatim>\<open>Math.random()\<close> is a double that is at least 0 and below 1: a number
  \<open>mantissa / 2 ^ places\<close> with a mantissa of at most 53 bits and 53 to 1074 binary
  places (every double of that range, the subnormal ones too, is of this form).
\<close>

record fraction =
  mantissa :: nat
  places :: nat

definition isDouble :: "fraction \<Rightarrow> bool" where
  "isDouble u = (mantissa u < 2 ^ 53 \<and> 53 \<le> places u \<and> places u \<le> 1074)"

text \<open>
  \<^verbatim>\<open>Math.floor(Math.random() * pool.length)\<close>. The product is the product of doubles:
  the exact product \<open>mantissa * n / 2 ^ places\<close> rounded to 53 significant bits, to the
  nearest such number and to the one with the even mantissa when it lies half way
  between two of them. (The length of an array, below \<open>2 ^ 32\<close>, is a double, and the
  product is below it, so that nothing overflows; no product is too small, since the
  last bit kept is \<open>2 ^ s / 2 ^ places\<close> and \<open>places\<close> is at most 1074.)
\<close>

fun bitLength :: "nat \<Rightarrow> nat" where
  "bitLength n = (if n = 0 then 0 else Suc (bitLength (n div 2)))"

declare bitLength.simps [simp del]

text \<open>\<open>p\<close> rounded to a multiple of \<open>2 ^ s\<close>.\<close>

definition roundTiesToEven :: "nat \<Rightarrow> nat \<Rightarrow> nat" where
  "roundTiesToEven s p =
     (let q = p div 2 ^ s; r = p mod 2 ^ s
      in (if 2 ^ s < 2 * r \<or> (2 * r = 2 ^ s \<and> odd q) then q + 1 else q) * 2 ^ s)"

text \<open>The product of the double \<open>u\<close> and the integer \<open>n\<close>, again counted in units of
  \<open>1 / 2 ^ places u\<close>, and its integer part.\<close>

definition timesDouble :: "fraction \<Rightarrow> nat \<Rightarrow> nat" where
  "timesDouble u n = (let p = mantissa u * n in roundTiesToEven (bitLength p - 53) p)"

definition floorTimes :: "fraction \<Rightarrow> nat \<Rightarrow> nat" where
  "floorTimes u n = timesDouble u n div 2 ^ places u"

text \<open>
  \<^verbatim>\<open>getRandomSunPrompt\<close>. \<open>u\<close> is the value of \<^verbatim>\<open>Math.random()\<close>; the module variable
  \<^verbatim>\<open>recentSunPrompts\<close> is passed in and returned. An index beyond the array reads
  \<^verbatim>\<open>undefined\<close> (\<open>None\<close>), which is pushed like any prompt.
\<close>

definition getRandomSunPrompt ::
  "string list \<Rightarrow> fraction \<Rightarrow> string option list \<Rightarrow> string option \<times> string option list" where
  "getRandomSunPrompt prompts u recent =
     (let available = filter (\<lambda>p. Some p \<notin> set recent) prompts;
          pool = (if length available > 0 then available else prompts);
          i = floorTimes u (length pool);
          prompt = (if i < length pool then Some (pool ! i) else None);
          pushed = recent @ [prompt]
      in (prompt,
          if length pushed > RECENT_SUN_PROMPT_LIMIT prompts then tl pushed else pushed))"

text \<open>The buffer after a sequence of calls, and the prompts returned by them.\<close>

fun promptRun ::
  "string list \<Rightarrow> fraction list \<Rightarrow> string option list \<Rightarrow> string option list \<times> string option list" where
  "promptRun prompts [] recent = ([], recent)"
| "promptRun prompts (u # us) recent =
     (let (p, recent1) = getRandomSunPrompt prompts u recent;
          (ps, recent2) = promptRun prompts us recent1
      in (p # ps, recent2))"

text \<open>The doubles 0.5 and 0.7 (the double nearest to seven tenths, a little below it),
  and a pool of ten prompts that has the same prompt seven times.\<close>

definition half :: fraction where
  "half = \<lparr>mantissa = 4503599627370496, places = 53\<rparr>"

definition sevenTenths :: fraction where
  "sevenTenths = \<lparr>mantissa = 6305039478318694, places = 53\<rparr>"

definition repeatedPrompts :: "string list" where
  "repeatedPrompts =
     [''What went well?'', ''What went well?'', ''What went well?'', ''What went well?'',
      ''What went well?'', ''What went well?'', ''What went well?'', ''What was hard?'',
      ''What was hard?'', ''What was hard?'']"

text \<open>The two halves of \<^verbatim>\<open>getRandomSunPrompt\<close>, for the examples: the pool that a call
  selects from, and the selection at an index of it.\<close>

definition candidates :: "string list \<Rightarrow> string option list \<Rightarrow> string list" where
  "candidates prompts recent =
     (let available = filter (\<lambda>p. Some p \<notin> set recent) prompts
      in if length available > 0 then available else prompts)"

definition pick ::
  "string list \<Rightarrow> string option list \<Rightarrow> string list \<Rightarrow> nat
     \<Rightarrow> string option \<times> string option list" where
  "pick prompts recent pool i =
     (let prompt = (if i < length pool then Some (pool ! i) else None);
          pushed = recent @ [prompt]
      in (prompt,
          if length pushed > RECENT_SUN_PROMPT_LIMIT prompts then tl pushed else pushed))"

text \<open>The last \<open>k\<close> elements of a list.\<close>

definition lastN :: "nat \<Rightarrow> 'a list \<Rightarrow> 'a list" where
  "lastN k xs = drop (length xs - k) xs"

text \<open>The argument of \<^verbatim>\<open>openShineDialog\<close>.\<close>

record SproutRef =
  r_id :: string
  r_title :: string
  r_twigId :: string
  r_twigLabel :: string

text \<open>The variables of the closure of \<^verbatim>\<open>initShineDialog\<close>, the module variable
  \<^verbatim>\<open>recentSunPrompts\<close> and the parts of the document that the dialog writes.\<close>

record ShineDialog = AppState +
  currentShiningSprout :: "(string \<times> string) option"
  shineDialogTitle :: string
  shineDialogMeta :: string
  shineDialogJournal :: string
  shineDialogPlaceholder :: "string option"
  shineDialogSaveDisabled :: bool
  shineDialogHidden :: bool
  sunMeterValue :: "int \<times> int"
  recentSunPrompts :: "string option list"

text \<open>\<^verbatim>\<open>updateSunMeter\<close> writes the text \<^verbatim>\<open>available/capacity\<close> of the meter (the width of
  its bar, a percentage, is left out).\<close>

definition updateSunMeter :: "ShineDialog \<Rightarrow> ShineDialog" where
  "updateSunMeter w = w\<lparr>sunMeterValue := (sunAvailable w, sunCapacity w)\<rparr>"

definition updateRadiateButtonState :: "ShineDialog \<Rightarrow> ShineDialog" where
  "updateRadiateButtonState w =
     (let hasContent = (length (trim (shineDialogJournal w)) > 0)
      in w\<lparr>shineDialogSaveDisabled := \<not> hasContent\<rparr>)"

definition openShineDialog :: "Platform \<Rightarrow> fraction \<Rightarrow> SproutRef \<Rightarrow> ShineDialog \<Rightarrow> ShineDialog" where
  "openShineDialog pf u sprout w =
     (let (shone, w1) = wasShoneThisWeek pf (r_twigId sprout) w
      in if shone
         then logCall (OnSetStatus
                ''Already reflected on this facet this week! Come back next week.'' Warning) w1
         else
           let (ok, w2) = canAffordSun w1
           in if \<not> ok then logCall (OnSetStatus ''No sun left this week!'' Warning) w2
              else
                let (prompt, recent) =
                      getRandomSunPrompt (sunPrompts pf) u (recentSunPrompts w2);
                    w3 = w2\<lparr>currentShiningSprout := Some (r_id sprout, r_twigId sprout),
                            shineDialogTitle := orElse (Some (r_title sprout)) ''Untitled Sprout'',
                            shineDialogMeta := r_twigLabel sprout,
                            shineDialogJournal := [],
                            shineDialogPlaceholder := prompt,
                            recentSunPrompts := recent\<rparr>
                in (updateRadiateButtonState w3)\<lparr>shineDialogHidden := False\<rparr>)"

definition closeShineDialog :: "ShineDialog \<Rightarrow> ShineDialog" where
  "closeShineDialog w =
     w\<lparr>shineDialogHidden := True, shineDialogJournal := [], currentShiningSprout := None\<rparr>"

definition saveSunEntry :: "Platform \<Rightarrow> ShineDialog \<Rightarrow> ShineDialog" where
  "saveSunEntry pf w =
     (let entry = trim (shineDialogJournal w)
      in if entry = [] then w
         else
           let (ok, w1) = canAffordSun w
           in if \<not> ok
              then closeShineDialog (logCall (OnSetStatus ''No sun left this week!'' Warning) w1)
              else
                (case currentShiningSprout w1 of
                   Some (sid, twigId) \<Rightarrow>
                     let (spent, w2) = spendSun w1;
                         w3 = updateSunMeter w2;
                         prompt = shineDialogPlaceholder w3;
                         w4 = addSunEntry pf twigId entry prompt w3;
                         w5 = logCall (OnSetStatus ''Light radiated on this life facet!'' Info) w4
                     in closeShineDialog w5
                 | None \<Rightarrow> closeShineDialog w1))"

definition weeklyLimitStatus :: call where
  "weeklyLimitStatus =
     OnSetStatus ''Already reflected on this facet this week! Come back next week.'' Warning"

section \<open>The unified log in a store\<close>

text \<open>
  The arrays that \<^verbatim>\<open>buildUnifiedLog\<close> reads and writes, in an explicit store: a cell per
  array, the address of an array being its index. \<^verbatim>\<open>const entries = []\<close> takes a new
  cell, \<^verbatim>\<open>entries.push\<close> and \<^verbatim>\<open>entries.sort\<close> write that cell in place; the loop
  runs over the Sprouts that the cell of the argument holds when it starts, and
  \<^verbatim>\<open>sprouts.find\<close> reads that cell at every iteration anew. The Sprouts of an array are
  values of its cell. The function has no variable of the closure or of the module
  among the things it reads or writes, so the store is all its state. (\<open>None\<close>: the
  address does not hold an array of Sprouts.)
\<close>

datatype cell = SproutArray "Sprout list" | EntryArray "LogEntry list"

type_synonym heap = "cell list"

definition lookup :: "heap \<Rightarrow> nat \<Rightarrow> cell option" where
  "lookup h a = (if a < length h then Some (h ! a) else None)"

definition newArray :: "heap \<Rightarrow> nat \<times> heap" where
  "newArray h = (length h, h @ [EntryArray []])"

definition updateEntries :: "nat \<Rightarrow> (LogEntry list \<Rightarrow> LogEntry list) \<Rightarrow> heap \<Rightarrow> heap" where
  "updateEntries r f h =
     (case lookup h r of Some (EntryArray es) \<Rightarrow> h[r := EntryArray (f es)] | _ \<Rightarrow> h)"

definition sproutsAt :: "heap \<Rightarrow> nat \<Rightarrow> Sprout list" where
  "sproutsAt h a = (case lookup h a of Some (SproutArray xs) \<Rightarrow> xs | _ \<Rightarrow> [])"

text \<open>The body of \<^verbatim>\<open>buildUnifiedLog\<close>, for the iteration \<open>push\<close> of either revision.\<close>

definition buildLogIn ::
  "(Sprout list \<Rightarrow> LogEntry list \<Rightarrow> Sprout \<Rightarrow> LogEntry list) \<Rightarrow> clock \<Rightarrow> nat \<Rightarrow> heap
     \<Rightarrow> (nat \<times> heap) option" where
  "buildLogIn push getTime a h =
     (case lookup h a of
        Some (SproutArray sprouts) \<Rightarrow>
          let (entries, h1) = newArray h;
              h2 = foldl (\<lambda>h' sprout.
                      updateEntries entries (\<lambda>es. push (sproutsAt h' a) es sprout) h') h1 sprouts;
              h3 = updateEntries entries (arraySort (byTimestampDesc getTime)) h2
          in Some (entries, h3)
      | _ \<Rightarrow> None)"

definition buildUnifiedLogIn :: "clock \<Rightarrow> nat \<Rightarrow> heap \<Rightarrow> (nat \<times> heap) option" where
  "buildUnifiedLogIn = buildLogIn pushSprout"

definition buildUnifiedLogIn0 :: "clock \<Rightarrow> nat \<Rightarrow> heap \<Rightarrow> (nat \<times> heap) option" where
  "buildUnifiedLogIn0 = buildLogIn pushSprout0"

text \<open>The contents of the array that a call returned.\<close>

definition returned :: "(nat \<times> heap) option \<Rightarrow> LogEntry list option" where
  "returned res =
     (case res of
        None \<Rightarrow> None
      | Some (r, h) \<Rightarrow> (case lookup h r of Some (EntryArray es) \<Rightarrow> Some es | _ \<Rightarrow> None))"

subsection \<open>Example states\<close>

definition exampleCost :: "SproutSeason \<Rightarrow> SproutEnvironment \<Rightarrow> int" where
  "exampleCost sn en =
     (case sn of S1w \<Rightarrow> 1 | S2w \<Rightarrow> 2 | S1m \<Rightarrow> 3 | S3m \<Rightarrow> 5 | S6m \<Rightarrow> 8 | S1y \<Rightarrow> 12)
     * (case en of Fertile \<Rightarrow> 1 | Firm \<Rightarrow> 2 | Barren \<Rightarrow> 3)"

definition thisWeek :: "string \<Rightarrow> bool" where
  "thisWeek ts =
     (case exampleClock ts of
        None \<Rightarrow> False
      | Some t \<Rightarrow> 1706486400000 \<le> t \<and> t < 1707091200000)"

definition examplePlatform :: Platform where
  "examplePlatform =
     \<lparr>calculateSoilCost = exampleCost, clockNow = 1706684400000, timeZone = utcZone,
      nextSproutId = ''sprout-3'', inCurrentWeek = thisWeek,
      sunPrompts = [''What went well?'', ''What was hard?'', ''What is next?'']\<rparr>"

text \<open>A leaf view with the graft form filled in (one month, firm: 6 soil) and 4 soil
  available.\<close>

definition poorView :: LeafView where
  "poorView =
     \<lparr>soilAvailable = 4, sunAvailable = 1, sunCapacity = 3, twigSprouts = (\<lambda>t. []), twigSunEntries = (\<lambda>t. []),
      calls = [], currentTwigId = Some ''twig-1'', currentLeafId = Some ''leaf-1'',
      graftFromSproutId = Some ''sprout-1'', selectedSeason = Some S1m,
      selectedEnvironment = Some Firm, graftTitleInput = Some '' Read daily '',
      graftFormHidden = False, graftTriggerHidden = True\<rparr>"

definition richView :: LeafView where
  "richView = poorView\<lparr>soilAvailable := 100\<rparr>"


text \<open>A dialog open on a Twig that has a reflection of the current week, with three suns
  left and a journal text typed in.\<close>

definition shoneDialog :: ShineDialog where
  "shoneDialog =
     \<lparr>soilAvailable = 10, sunAvailable = 3, sunCapacity = 3, twigSprouts = (\<lambda>t. []),
      twigSunEntries = (\<lambda>t. if t = ''twig-1''
         then [\<lparr>j_timestamp = ''2024-01-30T08:00:00.000Z'', j_content = ''steady'',
                 j_prompt = None\<rparr>]
         else []),
      calls = [], currentShiningSprout = Some (''sprout-1'', ''twig-1''),
      shineDialogTitle = ''Read more'', shineDialogMeta = ''Mind'',
      shineDialogJournal = '' a good week '', shineDialogPlaceholder = Some ''What went well?'',
      shineDialogSaveDisabled = False, shineDialogHidden = False, sunMeterValue = (3, 3),
      recentSunPrompts = [Some ''What went well?'']\<rparr>"

definition exampleRef :: SproutRef where
  "exampleRef =
     \<lparr>r_id = ''sprout-1'', r_title = ''Read more'', r_twigId = ''twig-1'', r_twigLabel = ''Mind''\<rparr>"

section \<open>Ordering of the unified log\<close>

lemma set_sortInsert: "set (sortInsert cmp x ys) = insert x (set ys)"
  by (induction ys) auto

lemma mset_sortInsert: "mset (sortInsert cmp x ys) = add_mset x (mset ys)"
  by (induction ys) auto

lemma mset_arraySort: "mset (arraySort cmp xs) = mset xs"
  by (induction xs) (simp_all add: mset_sortInsert)

lemma set_arraySort: "set (arraySort cmp xs) = set xs"
  by (induction xs) (simp_all add: set_sortInsert)

lemma length_arraySort: "length (arraySort cmp xs) = length xs"
  using mset_arraySort [of cmp xs] by (metis size_mset)

lemma notBefore_parsed:
  assumes "getTime (timestamp a) \<noteq> None" and "getTime (timestamp b) \<noteq> None"
  shows "notBefore (getTime (timestamp a)) (getTime (timestamp b))
         = (the (getTime (timestamp b)) \<le> the (getTime (timestamp a)))"
  using assms by auto

lemma sortCompare_parsed:
  assumes "getTime (timestamp a) \<noteq> None" and "getTime (timestamp b) \<noteq> None"
  shows "sortCompare (byTimestampDesc getTime) a b
         = the (getTime (timestamp b)) - the (getTime (timestamp a))"
  using assms by (auto simp add: sortCompare_def byTimestampDesc_def)

lemma newestFirst_Cons:
  "newestFirst getTime (x # ys)
   = ((\<forall>z\<in>set ys. notBefore (getTime (timestamp x)) (getTime (timestamp z)))
      \<and> newestFirst getTime ys)"
  by (simp add: newestFirst_def)

lemma newestFirst_sortInsert:
  assumes "newestFirst getTime ys"
    and "\<forall>e\<in>set (x # ys). getTime (timestamp e) \<noteq> None"
  shows "newestFirst getTime (sortInsert (byTimestampDesc getTime) x ys)"
  using assms
proof (induction ys)
  case Nil
  then show ?case by (simp add: newestFirst_def)
next
  case (Cons y ys)
  have px: "getTime (timestamp x) \<noteq> None" and py: "getTime (timestamp y) \<noteq> None"
    and pz: "\<forall>z\<in>set ys. getTime (timestamp z) \<noteq> None"
    using Cons.prems(2) by simp_all
  have tl: "newestFirst getTime ys"
    and hd: "\<forall>z\<in>set ys. notBefore (getTime (timestamp y)) (getTime (timestamp z))"
    using Cons.prems(1) by (simp_all add: newestFirst_Cons)
  from hd py pz
  have hd': "\<forall>z\<in>set ys. the (getTime (timestamp z)) \<le> the (getTime (timestamp y))"
    by (simp add: notBefore_parsed)
  show ?case
  proof (cases "sortCompare (byTimestampDesc getTime) x y \<le> 0")
    case True
    then have xy: "the (getTime (timestamp y)) \<le> the (getTime (timestamp x))"
      using px py by (simp add: sortCompare_parsed)
    with hd' have "\<forall>z\<in>set (y # ys). the (getTime (timestamp z)) \<le> the (getTime (timestamp x))"
      by auto
    with px py pz
    have "\<forall>z\<in>set (y # ys). notBefore (getTime (timestamp x)) (getTime (timestamp z))"
      by (simp add: notBefore_parsed)
    with True Cons.prems(1) show ?thesis by (simp add: newestFirst_Cons)
  next
    case False
    then have yx: "the (getTime (timestamp x)) \<le> the (getTime (timestamp y))"
      using px py by (simp add: sortCompare_parsed)
    with px py have "notBefore (getTime (timestamp y)) (getTime (timestamp x))"
      by (simp add: notBefore_parsed)
    with hd
    have all: "\<forall>z\<in>insert x (set ys). notBefore (getTime (timestamp y)) (getTime (timestamp z))"
      by simp
    have "newestFirst getTime (sortInsert (byTimestampDesc getTime) x ys)"
      using Cons.IH tl px pz by simp
    with False all show ?thesis
      by (simp add: newestFirst_Cons set_sortInsert)
  qed
qed

lemma newestFirst_arraySort:
  assumes "\<forall>e\<in>set es. getTime (timestamp e) \<noteq> None"
  shows "newestFirst getTime (arraySort (byTimestampDesc getTime) es)"
  using assms
proof (induction es)
  case Nil
  then show ?case by (simp add: newestFirst_def)
next
  case (Cons e es)
  then show ?case by (simp add: newestFirst_sortInsert set_arraySort)
qed

text \<open>A sequence of two or more entries that is ordered has no \<^verbatim>\<open>NaN\<close> timestamp: no
  ordering of entries of which one does not parse is most recent first.\<close>

lemma newestFirst_parsed:
  assumes "newestFirst getTime es" and "2 \<le> length es" and "e \<in> set es"
  shows "getTime (timestamp e) \<noteq> None"
proof -
  from assms(3) obtain i where i: "i < length es" and e: "e = es ! i"
    by (auto simp add: in_set_conv_nth)
  define j :: nat where "j = (if i = 0 then 1 else 0)"
  from assms(2) have j: "j < length es" and ij: "i \<noteq> j"
    by (auto simp add: j_def)
  have nb: "notBefore a b \<Longrightarrow> a \<noteq> None \<and> b \<noteq> None" for a b
    by (cases a; cases b) simp_all
  show ?thesis
  proof (cases "i < j")
    case True
    with assms(1) j
    have "notBefore (getTime (timestamp (es ! i))) (getTime (timestamp (es ! j)))"
      by (simp add: newestFirst_def sorted_wrt_iff_nth_less)
    with nb e show ?thesis by blast
  next
    case False
    with ij have "j < i" by simp
    with assms(1) i
    have "notBefore (getTime (timestamp (es ! j))) (getTime (timestamp (es ! i)))"
      by (simp add: newestFirst_def sorted_wrt_iff_nth_less)
    with nb e show ?thesis by blast
  qed
qed

text \<open>Every push keeps what has been pushed, and every Sprout pushes its start entry.\<close>

lemma set_pushJournal: "set entries \<subseteq> set (pushJournal ty sprout es entries)"
proof (induction es arbitrary: entries)
  case Nil
  then show ?case by simp
next
  case (Cons e es)
  have "set entries \<subseteq> set (entries @ [journalEntry ty sprout e])" by auto
  also have "\<dots> \<subseteq> set (pushJournal ty sprout es (entries @ [journalEntry ty sprout e]))"
    by (rule Cons.IH)
  finally show ?case by simp
qed

lemma set_pushGraft: "set entries \<subseteq> set (pushGraft sprouts sprout entries)"
  by (auto simp add: pushGraft_def split: option.splits)

lemma set_pushCompletion: "set entries \<subseteq> set (pushCompletion sprout entries)"
  by (auto simp add: pushCompletion_def split: option.splits)

lemma set_pushSprout:
  "insert (startEntry sprout) (set entries) \<subseteq> set (pushSprout sprouts entries sprout)"
proof -
  let ?a = "entries @ [startEntry sprout]"
  let ?b = "pushGraft sprouts sprout ?a"
  let ?c = "pushJournal Watering sprout (orEmpty (waterEntries sprout)) ?b"
  let ?d = "pushJournal Shining sprout (orEmpty (sunEntries sprout)) ?c"
  have "insert (startEntry sprout) (set entries) \<subseteq> set ?a" by auto
  also have "\<dots> \<subseteq> set ?b" by (rule set_pushGraft)
  also have "\<dots> \<subseteq> set ?c" by (rule set_pushJournal)
  also have "\<dots> \<subseteq> set ?d" by (rule set_pushJournal)
  also have "\<dots> \<subseteq> set (pushCompletion sprout ?d)" by (rule set_pushCompletion)
  finally show ?thesis by (simp add: pushSprout_def)
qed

lemma set_pushSprout0:
  "insert (startEntry sprout) (set entries) \<subseteq> set (pushSprout0 sprouts entries sprout)"
proof -
  let ?a = "entries @ [startEntry sprout]"
  let ?b = "pushGraft sprouts sprout ?a"
  let ?c = "pushJournal Watering sprout (orEmpty (waterEntries sprout)) ?b"
  have "insert (startEntry sprout) (set entries) \<subseteq> set ?a" by auto
  also have "\<dots> \<subseteq> set ?b" by (rule set_pushGraft)
  also have "\<dots> \<subseteq> set ?c" by (rule set_pushJournal)
  also have "\<dots> \<subseteq> set (pushCompletion sprout ?c)" by (rule set_pushCompletion)
  finally show ?thesis by (simp add: pushSprout0_def)
qed

lemma set_foldl_push:
  assumes "\<And>entries sprout. insert (startEntry sprout) (set entries) \<subseteq> set (push entries sprout)"
  shows "startEntry ` set xs \<union> set acc \<subseteq> set (foldl push acc xs)"
proof (induction xs arbitrary: acc)
  case Nil
  then show ?case by simp
next
  case (Cons x xs)
  have "startEntry ` set xs \<union> set (push acc x) \<subseteq> set (foldl push (push acc x) xs)"
    by (rule Cons.IH)
  with assms [of x acc] show ?case by auto
qed

lemma startEntry_collected:
  assumes "s \<in> set sprouts"
  shows "startEntry s \<in> set (collectEntries sprouts)"
    and "startEntry s \<in> set (collectEntries0 sprouts)"
  using assms set_foldl_push [of "pushSprout sprouts" sprouts "[]", OF set_pushSprout]
    set_foldl_push [of "pushSprout0 sprouts" sprouts "[]", OF set_pushSprout0]
  by (auto simp add: collectEntries_def collectEntries0_def)

text \<open>
  C1. For every sequence of Sprouts, \<open>buildUnifiedLog\<close> returns the empty sequence on the
  empty input; on every input the result is a reordering of the entries that were
  pushed, with the start entry of every Sprout among them (hence not empty when the
  input is not); and the result is ordered non-increasing by timestamp (most recent
  first) when the timestamp of every entry parses, that is when \<open>getTime\<close> is not \<^verbatim>\<open>NaN\<close>
  on it. This holds in both revisions of the file.
\<close>

theorem unified_log_newest_first:
  "buildUnifiedLog getTime [] = [] \<and> buildUnifiedLog0 getTime [] = []
   \<and> mset (buildUnifiedLog getTime sprouts) = mset (collectEntries sprouts)
   \<and> mset (buildUnifiedLog0 getTime sprouts) = mset (collectEntries0 sprouts)
   \<and> (\<forall>s\<in>set sprouts. startEntry s \<in> set (buildUnifiedLog getTime sprouts)
                        \<and> startEntry s \<in> set (buildUnifiedLog0 getTime sprouts))
   \<and> (sprouts \<noteq> []
        \<longrightarrow> buildUnifiedLog getTime sprouts \<noteq> [] \<and> buildUnifiedLog0 getTime sprouts \<noteq> [])
   \<and> ((\<forall>e\<in>set (collectEntries sprouts). getTime (timestamp e) \<noteq> None)
        \<longrightarrow> newestFirst getTime (buildUnifiedLog getTime sprouts))
   \<and> ((\<forall>e\<in>set (collectEntries0 sprouts). getTime (timestamp e) \<noteq> None)
        \<longrightarrow> newestFirst getTime (buildUnifiedLog0 getTime sprouts))"
proof -
  have start: "\<forall>s\<in>set sprouts. startEntry s \<in> set (buildUnifiedLog getTime sprouts)
                                \<and> startEntry s \<in> set (buildUnifiedLog0 getTime sprouts)"
    by (simp add: buildUnifiedLog_def buildUnifiedLog0_def set_arraySort startEntry_collected)
  have "sprouts \<noteq> []
        \<longrightarrow> buildUnifiedLog getTime sprouts \<noteq> [] \<and> buildUnifiedLog0 getTime sprouts \<noteq> []"
  proof
    assume "sprouts \<noteq> []"
    then obtain s where "s \<in> set sprouts" by (cases sprouts) auto
    with start show "buildUnifiedLog getTime sprouts \<noteq> []
                     \<and> buildUnifiedLog0 getTime sprouts \<noteq> []"
      by fastforce
  qed
  with start show ?thesis
    by (simp add: buildUnifiedLog_def buildUnifiedLog0_def collectEntries_def
        collectEntries0_def newestFirst_arraySort mset_arraySort)
qed

text \<open>
  The two Sprouts of the examples: every timestamp parses, and the log runs from the
  sun entry of 4 February back to the start of 2 January.
\<close>

theorem unified_log_newest_first_witness:
  "[exampleSprout, graftedSprout] \<noteq> []
   \<and> map (\<lambda>e. exampleClock (timestamp e)) (collectEntries [exampleSprout, graftedSprout])
     = [Some 1704186000000, Some 1704441600000, Some 1706886000000, Some 1706950800000,
        Some 1706950800000, Some 1707030000000]
   \<and> map (\<lambda>e. exampleClock (timestamp e)) (buildUnifiedLog exampleClock [exampleSprout, graftedSprout])
     = [Some 1707030000000, Some 1706950800000, Some 1706950800000, Some 1706886000000,
        Some 1704441600000, Some 1704186000000]
   \<and> newestFirst exampleClock (buildUnifiedLog exampleClock [exampleSprout, graftedSprout])
   \<and> newestFirst exampleClock (buildUnifiedLog0 exampleClock [exampleSprout, graftedSprout])
   \<and> startEntry graftedSprout \<in> set (buildUnifiedLog exampleClock [exampleSprout, graftedSprout])"
proof -
  let ?sprouts = "[exampleSprout, graftedSprout]"
  have a: "?sprouts \<noteq> []" by simp
  have b: "map (\<lambda>e. exampleClock (timestamp e)) (collectEntries ?sprouts)
           = [Some 1704186000000, Some 1704441600000, Some 1706886000000, Some 1706950800000,
              Some 1706950800000, Some 1707030000000]"
    by code_simp
  have c: "map (\<lambda>e. exampleClock (timestamp e)) (buildUnifiedLog exampleClock ?sprouts)
           = [Some 1707030000000, Some 1706950800000, Some 1706950800000, Some 1706886000000,
              Some 1704441600000, Some 1704186000000]"
    by code_simp
  have d: "\<forall>e\<in>set (collectEntries ?sprouts). exampleClock (timestamp e) \<noteq> None"
    by code_simp
  have d0: "\<forall>e\<in>set (collectEntries0 ?sprouts). exampleClock (timestamp e) \<noteq> None"
    by code_simp
  have g: "graftedSprout \<in> set ?sprouts" by simp
  note inst = unified_log_newest_first [of exampleClock ?sprouts]
  from inst d have e: "newestFirst exampleClock (buildUnifiedLog exampleClock ?sprouts)"
    by blast
  from inst d0 have f: "newestFirst exampleClock (buildUnifiedLog0 exampleClock ?sprouts)"
    by blast
  from inst g have h: "startEntry graftedSprout \<in> set (buildUnifiedLog exampleClock ?sprouts)"
    by blast
  show ?thesis by (intro conjI a b c e f h)
qed

text \<open>
  A Sprout with a water entry whose timestamp is no date. The comparison with it is
  \<^verbatim>\<open>NaN\<close>, the sort moves nothing, and the log is left in the order of the pushes: the
  start of 2 January stands before the completion of 2 February. Whatever order an
  implementation gives to the three entries, it is not most recent first
  (\<open>newestFirst_parsed\<close>).
\<close>

theorem unified_log_newest_first_counterexample:
  "map timestamp (buildUnifiedLog exampleClock [undatedSprout])
   = [''2024-01-02T09:00:00.000Z'', ''not a date'', ''2024-02-02T15:00:00.000Z'']
   \<and> map (\<lambda>e. exampleClock (timestamp e)) (buildUnifiedLog exampleClock [undatedSprout])
     = [Some 1704186000000, None, Some 1706886000000]
   \<and> \<not> newestFirst exampleClock (buildUnifiedLog exampleClock [undatedSprout])
   \<and> \<not> newestFirst exampleClock (buildUnifiedLog0 exampleClock [undatedSprout])"
  by code_simp

section \<open>Contents of the unified log\<close>

lemma pushJournal_append:
  "pushJournal ty sprout es entries = entries @ map (journalEntry ty sprout) es"
  by (induction es arbitrary: entries) simp_all

lemma summary_pushGraft:
  "map summary (pushGraft sprouts s entries) = map summary entries @ graftEvents s"
  by (cases "graftedFromId s")
     (simp_all add: pushGraft_def graftEvents_def graftEntry_def summary_def noData_def)

lemma summary_pushCompletion:
  "map summary (pushCompletion s entries) = map summary entries @ completionEvents s"
  by (cases "completedAt s")
     (simp_all add: pushCompletion_def completionEvents_def completionEntry_def
        summary_def noData_def)

lemma summary_journal:
  "map (summary \<circ> journalEntry ty s) (orEmpty es) = journalEvents ty s es"
  by (simp add: journalEvents_def journalEntry_def summary_def noData_def comp_def)

lemma summary_startEntry: "summary (startEntry s) = (SproutStart, startTime s, sprout_id s, None)"
  by (cases "activatedAt s") (simp_all add: startEntry_def summary_def startTime_def noData_def)

lemma summary_pushSprout:
  "map summary (pushSprout sprouts entries s) = map summary entries @ emittedEvents s"
  by (simp add: pushSprout_def summary_pushCompletion pushJournal_append summary_journal
      summary_pushGraft summary_startEntry emittedEvents_def)

lemma summary_pushSprout0:
  "map summary (pushSprout0 sprouts entries s) = map summary entries @ claimedEvents s"
  by (simp add: pushSprout0_def summary_pushCompletion pushJournal_append summary_journal
      summary_pushGraft summary_startEntry claimedEvents_def)

lemma summary_foldl_pushSprout:
  "map summary (foldl (pushSprout sprouts) entries xs)
   = map summary entries @ concat (map emittedEvents xs)"
  by (induction xs arbitrary: entries) (simp_all add: summary_pushSprout)

lemma summary_foldl_pushSprout0:
  "map summary (foldl (pushSprout0 sprouts) entries xs)
   = map summary entries @ concat (map claimedEvents xs)"
  by (induction xs arbitrary: entries) (simp_all add: summary_pushSprout0)

lemma summary_collectEntries:
  "map summary (collectEntries sprouts) = concat (map emittedEvents sprouts)"
  by (simp add: collectEntries_def summary_foldl_pushSprout)

lemma summary_collectEntries0:
  "map summary (collectEntries0 sprouts) = concat (map claimedEvents sprouts)"
  by (simp add: collectEntries0_def summary_foldl_pushSprout0)

lemma mset_summary_arraySort:
  "mset (map summary (arraySort cmp es)) = mset (map summary es)"
  by (simp add: mset_arraySort)

text \<open>
  C4 (amended). For every Sprout of the input, \<open>buildUnifiedLog\<close> emits exactly one
  start entry at \<open>activatedAt\<close> (at \<open>createdAt\<close> when that is absent or empty), one
  graft-origin entry at \<open>createdAt\<close> if and only if \<open>graftedFromId\<close> is set, one
  watering entry per water entry, one shining entry per sun entry (in
  \<^verbatim>\<open>src/ui/leaf-view.ts\<close>; none in the earlier revision), and one completion entry at
  \<open>completedAt\<close> if and only if that is set, flagged with \<open>state = completed\<close>.
\<close>

theorem unified_log_events:
  "mset (map summary (buildUnifiedLog getTime sprouts)) = mset (concat (map emittedEvents sprouts))
   \<and> mset (map summary (buildUnifiedLog0 getTime sprouts))
       = mset (concat (map claimedEvents sprouts))"
  by (simp only: buildUnifiedLog_def buildUnifiedLog0_def mset_summary_arraySort
      summary_collectEntries summary_collectEntries0 simp_thms)

text \<open>The claim C4 as it is stated leaves the shining entries out: a Sprout with one sun
  entry has two entries in the log of \<^verbatim>\<open>src/ui/leaf-view.ts\<close> beside its graft origin,
  and the claim accounts for one.\<close>

theorem unified_log_events_counterexample:
  "mset (map summary (buildUnifiedLog exampleClock [graftedSprout]))
   \<noteq> mset (concat (map claimedEvents [graftedSprout]))"
proof
  let ?A = "mset (map summary (buildUnifiedLog exampleClock [graftedSprout]))"
  let ?B = "mset (concat (map claimedEvents [graftedSprout]))"
  assume "?A = ?B"
  then have eq: "size ?A = size ?B" by (rule arg_cong)
  have a: "size ?A = 3"
    by (simp only: buildUnifiedLog_def mset_summary_arraySort summary_collectEntries)
       (simp add: emittedEvents_def journalEvents_def graftEvents_def completionEvents_def
          graftedSprout_def exampleSprout_def)
  have b: "size ?B = 2"
    by (simp add: claimedEvents_def journalEvents_def graftEvents_def completionEvents_def
        graftedSprout_def exampleSprout_def)
  from eq a b show False by linarith
qed

section \<open>Unresolved graft origins\<close>

lemma pushSprout_append:
  "pushSprout sprouts entries s = entries @ pushSprout sprouts [] s"
  by (simp add: pushSprout_def pushCompletion_def pushGraft_def pushJournal_append
      split: option.splits)

lemma pushSprout0_append:
  "pushSprout0 sprouts entries s = entries @ pushSprout0 sprouts [] s"
  by (simp add: pushSprout0_def pushCompletion_def pushGraft_def pushJournal_append
      split: option.splits)

lemma set_foldl_pushSprout:
  "set (foldl (pushSprout sprouts) entries xs)
   = set entries \<union> (\<Union>x\<in>set xs. set (pushSprout sprouts [] x))"
proof (induction xs arbitrary: entries)
  case Nil
  then show ?case by simp
next
  case (Cons x xs)
  have "set (pushSprout sprouts entries x) = set entries \<union> set (pushSprout sprouts [] x)"
    using pushSprout_append [of sprouts entries x] by simp
  with Cons.IH [of "pushSprout sprouts entries x"] show ?case by auto
qed

lemma set_foldl_pushSprout0:
  "set (foldl (pushSprout0 sprouts) entries xs)
   = set entries \<union> (\<Union>x\<in>set xs. set (pushSprout0 sprouts [] x))"
proof (induction xs arbitrary: entries)
  case Nil
  then show ?case by simp
next
  case (Cons x xs)
  have "set (pushSprout0 sprouts entries x) = set entries \<union> set (pushSprout0 sprouts [] x)"
    using pushSprout0_append [of sprouts entries x] by simp
  with Cons.IH [of "pushSprout0 sprouts entries x"] show ?case by auto
qed

lemma find_none: "(\<forall>p\<in>set xs. \<not> P p) \<Longrightarrow> find P xs = None"
  by (induction xs) simp_all

lemma graftEntry_unresolved:
  assumes "\<forall>p\<in>set sprouts. sprout_id p \<noteq> origin"
  shows "graftEntry sprouts s origin = placeholderEntry s"
proof -
  have "find (\<lambda>p. sprout_id p = origin) sprouts = None"
    using assms by (intro find_none) simp
  then show ?thesis
    by (simp add: graftEntry_def graftedFromTitle_def placeholderEntry_def noData_def)
qed

lemma graftEntry_pushed:
  assumes "graftedFromId s = Some origin" and "origin \<noteq> []"
  shows "graftEntry sprouts s origin \<in> set (pushSprout sprouts [] s)"
    and "graftEntry sprouts s origin \<in> set (pushSprout0 sprouts [] s)"
  using assms
  by (simp_all add: pushSprout_def pushSprout0_def pushCompletion_def pushGraft_def
      pushJournal_append split: option.splits)

text \<open>
  C8. For every Sprout of the input whose \<open>graftedFromId\<close> is set and names no Sprout
  of the same input, \<open>buildUnifiedLog\<close> still has the graft-origin entry of that Sprout,
  with the placeholder label \<^verbatim>\<open>'previous sprout'\<close> for the origin's title.
\<close>

theorem unresolved_origin_placeholder:
  assumes "s \<in> set sprouts"
    and "graftedFromId s = Some origin" and "origin \<noteq> []"
    and "\<forall>p\<in>set sprouts. sprout_id p \<noteq> origin"
  shows "placeholderEntry s \<in> set (buildUnifiedLog getTime sprouts)
       \<and> placeholderEntry s \<in> set (buildUnifiedLog0 getTime sprouts)"
proof -
  have e: "graftEntry sprouts s origin = placeholderEntry s"
    using assms(4) by (rule graftEntry_unresolved)
  have "placeholderEntry s \<in> set (collectEntries sprouts)"
    unfolding collectEntries_def set_foldl_pushSprout
    using assms(1) graftEntry_pushed(1) [OF assms(2,3), of sprouts] e by auto
  moreover have "placeholderEntry s \<in> set (collectEntries0 sprouts)"
    unfolding collectEntries0_def set_foldl_pushSprout0
    using assms(1) graftEntry_pushed(2) [OF assms(2,3), of sprouts] e by auto
  ultimately show ?thesis
    by (simp add: buildUnifiedLog_def buildUnifiedLog0_def set_arraySort)
qed

theorem unresolved_origin_placeholder_witness:
  "graftedSprout \<in> set [exampleSprout, graftedSprout]
   \<and> graftedFromId graftedSprout = Some ''sprout-0''
   \<and> sprout_id exampleSprout \<noteq> ''sprout-0'' \<and> sprout_id graftedSprout \<noteq> ''sprout-0''
   \<and> placeholderEntry graftedSprout
       \<in> set (buildUnifiedLog exampleClock [exampleSprout, graftedSprout])
   \<and> placeholderEntry graftedSprout
       \<in> set (buildUnifiedLog0 exampleClock [exampleSprout, graftedSprout])"
proof -
  have a: "graftedSprout \<in> set [exampleSprout, graftedSprout]" by simp
  have b: "graftedFromId graftedSprout = Some ''sprout-0''"
    by (simp add: graftedSprout_def exampleSprout_def)
  have c: "''sprout-0'' \<noteq> []" by simp
  have d: "\<forall>p\<in>set [exampleSprout, graftedSprout]. sprout_id p \<noteq> ''sprout-0''"
    by (simp add: graftedSprout_def exampleSprout_def)
  from unresolved_origin_placeholder [OF a b c d, of exampleClock] b d
  show ?thesis by simp
qed

section \<open>The graft commit\<close>

lemma doGraft_outcome:
  "doGraft pf w = w
   \<or> (\<exists>c. selectedCost pf w = Some c \<and> soilAvailable w < c
          \<and> doGraft pf w = logCall (CanAffordSoil c False) w)
   \<or> (\<exists>c twig leaf. selectedCost pf w = Some c \<and> c \<le> soilAvailable w
          \<and> soilAvailable (doGraft pf w) = soilAvailable w - c
          \<and> calls (doGraft pf w) = calls w @
              [CanAffordSoil c True, SpendSoil c True, OnSoilChange, GraftFromLeaf twig leaf,
               OnSave, OnClose])"
  by (auto simp: doGraft_def selectedCost_def canAffordSoil_def spendSoil_def logCall_def
      Let_def graftFromLeaf_def hideGraftForm_def split: option.splits)

lemma doGraft0_outcome:
  "doGraft0 pf w = w
   \<or> (\<exists>c. selectedCost pf w = Some c \<and> soilAvailable w < c
          \<and> doGraft0 pf w = logCall (CanAffordSoil c False) w)
   \<or> (\<exists>c twig origin. selectedCost pf w = Some c \<and> c \<le> soilAvailable w
          \<and> soilAvailable (doGraft0 pf w) = soilAvailable w - c
          \<and> calls (doGraft0 pf w) = calls w @
              [CanAffordSoil c True, SpendSoil c True, OnSoilChange, GraftSprout twig origin,
               Render, OnSave])"
  by (auto simp: doGraft0_def selectedCost_def canAffordSoil_def spendSoil_def logCall_def
      Let_def graftSprout_def hideGraftForm0_def split: option.splits)

lemma doGraft_guarded:
  "spendGuarded [] (newCalls w (doGraft pf w))
   \<and> (\<forall>c ok. SpendSoil c ok \<in> set (newCalls w (doGraft pf w))
         \<longrightarrow> selectedCost pf w = Some c)
   \<and> (\<forall>c. selectedCost pf w = Some c \<and> \<not> c \<le> soilAvailable w
         \<longrightarrow> (doGraft pf w)\<lparr>calls := calls w\<rparr> = w)"
  using doGraft_outcome [of pf w]
  by (elim disjE exE conjE) (simp_all add: newCalls_def logCall_def)

lemma doGraft0_guarded:
  "spendGuarded [] (newCalls w (doGraft0 pf w))
   \<and> (\<forall>c ok. SpendSoil c ok \<in> set (newCalls w (doGraft0 pf w))
         \<longrightarrow> selectedCost pf w = Some c)
   \<and> (\<forall>c. selectedCost pf w = Some c \<and> \<not> c \<le> soilAvailable w
         \<longrightarrow> (doGraft0 pf w)\<lparr>calls := calls w\<rparr> = w)"
  using doGraft0_outcome [of pf w]
  by (elim disjE exE conjE) (simp_all add: newCalls_def logCall_def)

text \<open>
  C2. In \<open>doGraft\<close>, every call of \<^verbatim>\<open>spendSoil(cost)\<close> succeeds and comes after a call of
  \<^verbatim>\<open>canAffordSoil(cost)\<close> that returned true for the same cost, which is the cost
  computed by \<^verbatim>\<open>calculateSoilCost\<close> from the selected season and environment; and when
  that cost exceeds the available soil, \<open>doGraft\<close> changes nothing (no soil is spent, no
  Sprout is created; only the call of \<^verbatim>\<open>canAffordSoil\<close> is on record). Both revisions.
\<close>

theorem graft_spend_guarded:
  "(spendGuarded [] (newCalls w (doGraft pf w))
    \<and> (\<forall>c ok. SpendSoil c ok \<in> set (newCalls w (doGraft pf w))
          \<longrightarrow> selectedCost pf w = Some c)
    \<and> (\<forall>c. selectedCost pf w = Some c \<and> \<not> c \<le> soilAvailable w
          \<longrightarrow> (doGraft pf w)\<lparr>calls := calls w\<rparr> = w))
   \<and> (spendGuarded [] (newCalls w (doGraft0 pf w))
    \<and> (\<forall>c ok. SpendSoil c ok \<in> set (newCalls w (doGraft0 pf w))
          \<longrightarrow> selectedCost pf w = Some c)
    \<and> (\<forall>c. selectedCost pf w = Some c \<and> \<not> c \<le> soilAvailable w
          \<longrightarrow> (doGraft0 pf w)\<lparr>calls := calls w\<rparr> = w))"
  using doGraft_guarded [of w pf] doGraft0_guarded [of w pf] by (rule conjI)

theorem graft_spend_guarded_witness:
  "selectedCost examplePlatform poorView = Some 6 \<and> \<not> 6 \<le> soilAvailable poorView
   \<and> (doGraft examplePlatform poorView)\<lparr>calls := calls poorView\<rparr> = poorView
   \<and> (doGraft0 examplePlatform poorView)\<lparr>calls := calls poorView\<rparr> = poorView
   \<and> newCalls poorView (doGraft examplePlatform poorView) = [CanAffordSoil 6 False]
   \<and> SpendSoil 6 True \<in> set (newCalls richView (doGraft examplePlatform richView))
   \<and> selectedCost examplePlatform richView = Some 6
   \<and> spendGuarded [] (newCalls richView (doGraft examplePlatform richView))
   \<and> newCalls richView (doGraft examplePlatform richView)
       = [CanAffordSoil 6 True, SpendSoil 6 True, OnSoilChange,
          GraftFromLeaf ''twig-1'' ''leaf-1'', OnSave, OnClose]"
proof -
  have a: "selectedCost examplePlatform poorView = Some 6 \<and> \<not> 6 \<le> soilAvailable poorView"
    by (simp add: selectedCost_def examplePlatform_def poorView_def exampleCost_def)
  have b: "newCalls richView (doGraft examplePlatform richView)
       = [CanAffordSoil 6 True, SpendSoil 6 True, OnSoilChange,
          GraftFromLeaf ''twig-1'' ''leaf-1'', OnSave, OnClose]"
    by code_simp
  have c: "newCalls poorView (doGraft examplePlatform poorView) = [CanAffordSoil 6 False]"
    by code_simp
  have d: "SpendSoil 6 True \<in> set (newCalls richView (doGraft examplePlatform richView))"
    unfolding b by simp
  from graft_spend_guarded [of poorView examplePlatform] a
  have "(doGraft examplePlatform poorView)\<lparr>calls := calls poorView\<rparr> = poorView"
    and "(doGraft0 examplePlatform poorView)\<lparr>calls := calls poorView\<rparr> = poorView"
    by blast+
  moreover from graft_spend_guarded [of richView examplePlatform] d
  have "selectedCost examplePlatform richView = Some 6"
    and "spendGuarded [] (newCalls richView (doGraft examplePlatform richView))"
    by blast+
  ultimately show ?thesis using a b c d by simp
qed

section \<open>Where a graft is offered\<close>

text \<open>With an active Sprout on the leaf the markup is that of the cards alone: the
  template of the graft section is left out.\<close>

lemma render_with_active:
  assumes "s \<in> set sprouts" and "state s = Active"
  shows "render getTime formatDateTime sprouts
         = concat (map (renderLogEntry formatDateTime) (buildUnifiedLog getTime sprouts))"
proof -
  from assms have a: "list_ex (\<lambda>s. state s = Active) sprouts" by (auto simp add: list_ex_iff)
  from assms(1) have n: "sprouts \<noteq> []" by auto
  have "startEntry s \<in> set (buildUnifiedLog getTime sprouts)"
    using assms(1) by (simp add: buildUnifiedLog_def set_arraySort startEntry_collected)
  then have "buildUnifiedLog getTime sprouts \<noteq> []" by auto
  with a n show ?thesis by (simp add: render_def renderGraftForm_def Let_def)
qed

text \<open>
  The examples without markup in their texts. A leaf with a completed Sprout alone: the
  handlers of the graft section are wired. With the active Sprout beside it: none is.
  In the earlier revision the one graft button opens the form for the completed Sprout.
\<close>

lemma graft_section_examples:
  "map snd (wireLogEvents (exampleParser (render exampleClock plainDate [exampleSprout])))
     = [ShowGraftForm, UpdateGraftFormState, SelectSeason (Some ''1w''),
        SelectSeason (Some ''2w''), SelectSeason (Some ''1m''), SelectSeason (Some ''3m''),
        SelectSeason (Some ''6m''), SelectSeason (Some ''1y''),
        SelectEnvironment (Some ''fertile''), SelectEnvironment (Some ''firm''),
        SelectEnvironment (Some ''barren''), HideGraftForm, DoGraft]"
  "wireLogEvents (exampleParser (render exampleClock plainDate [exampleSprout, graftedSprout]))
     = []"
  "map_option (\<lambda>m. take 2 (map snd (wireLogEvents0 (exampleParser m))))
     (render0 exampleClock plainDate True [exampleSprout, graftedSprout])
     = Some [OpenGraftFrom (Some ''sprout-1''), UpdateGraftFormState]"
  by code_simp+


section \<open>The weekly gate of the shine dialog\<close>

lemma open_when_shone:
  assumes "fst (wasShoneThisWeek pf (r_twigId sprout) w)"
  shows "openShineDialog pf u sprout w
     = logCall weeklyLimitStatus (logCall (WasShoneThisWeek (r_twigId sprout) True) w)"
  using assms
  by (simp add: openShineDialog_def wasShoneThisWeek_def weeklyLimitStatus_def Let_def)

lemma open_when_not_shone:
  assumes "\<not> fst (wasShoneThisWeek pf (r_twigId sprout) w)"
  shows "take 2 (newCalls w (openShineDialog pf u sprout w))
     = [WasShoneThisWeek (r_twigId sprout) False, CanAffordSun (1 \<le> sunAvailable w)]"
  using assms
  by (auto simp: openShineDialog_def wasShoneThisWeek_def canAffordSun_def Let_def
      newCalls_def logCall_def updateRadiateButtonState_def split: prod.splits)

text \<open>
  C5. \<open>openShineDialog\<close> asks the weekly gate first: when the Twig has a reflection of the
  current week, the only calls are \<^verbatim>\<open>wasShoneThisWeek\<close> and the status callback with the
  weekly-limit message, nothing else changes, and \<^verbatim>\<open>canAffordSun\<close> is not called,
  whatever the sun balance is; otherwise \<^verbatim>\<open>canAffordSun\<close> is the second call.
\<close>

theorem weekly_gate_before_sun:
  "(fst (wasShoneThisWeek pf (r_twigId sprout) w) \<longrightarrow>
      openShineDialog pf u sprout w
        = logCall weeklyLimitStatus (logCall (WasShoneThisWeek (r_twigId sprout) True) w)
      \<and> newCalls w (openShineDialog pf u sprout w)
          = [WasShoneThisWeek (r_twigId sprout) True, weeklyLimitStatus]
      \<and> CanAffordSun ok \<notin> set (newCalls w (openShineDialog pf u sprout w)))
   \<and> (\<not> fst (wasShoneThisWeek pf (r_twigId sprout) w) \<longrightarrow>
      take 2 (newCalls w (openShineDialog pf u sprout w))
        = [WasShoneThisWeek (r_twigId sprout) False, CanAffordSun (1 \<le> sunAvailable w)])"
proof (intro conjI impI)
  assume a: "fst (wasShoneThisWeek pf (r_twigId sprout) w)"
  show e: "openShineDialog pf u sprout w
        = logCall weeklyLimitStatus (logCall (WasShoneThisWeek (r_twigId sprout) True) w)"
    using a by (rule open_when_shone)
  show n: "newCalls w (openShineDialog pf u sprout w)
          = [WasShoneThisWeek (r_twigId sprout) True, weeklyLimitStatus]"
    unfolding e by (simp add: newCalls_def logCall_def)
  show "CanAffordSun ok \<notin> set (newCalls w (openShineDialog pf u sprout w))"
    unfolding n by (simp add: weeklyLimitStatus_def)
next
  assume "\<not> fst (wasShoneThisWeek pf (r_twigId sprout) w)"
  then show "take 2 (newCalls w (openShineDialog pf u sprout w))
        = [WasShoneThisWeek (r_twigId sprout) False, CanAffordSun (1 \<le> sunAvailable w)]"
    by (rule open_when_not_shone)
qed

theorem weekly_gate_before_sun_witness:
  "fst (wasShoneThisWeek examplePlatform (r_twigId exampleRef) shoneDialog)
   \<and> sunAvailable shoneDialog = 3
   \<and> calls (openShineDialog examplePlatform half exampleRef shoneDialog)
       = [WasShoneThisWeek ''twig-1'' True, weeklyLimitStatus]
   \<and> sunAvailable (openShineDialog examplePlatform half exampleRef shoneDialog) = 3
   \<and> shineDialogJournal (openShineDialog examplePlatform half exampleRef shoneDialog)
       = '' a good week ''"
proof -
  have a: "fst (wasShoneThisWeek examplePlatform (r_twigId exampleRef) shoneDialog)"
    by code_simp
  have t: "r_twigId exampleRef = ''twig-1''" by (simp add: exampleRef_def)
  from weekly_gate_before_sun [of examplePlatform exampleRef shoneDialog half True] a
  have "openShineDialog examplePlatform half exampleRef shoneDialog
        = logCall weeklyLimitStatus
            (logCall (WasShoneThisWeek (r_twigId exampleRef) True) shoneDialog)"
    by blast
  with a t show ?thesis by (simp add: logCall_def shoneDialog_def)
qed

section \<open>Saving a reflection\<close>

lemma save_empty: "trim (shineDialogJournal w) = [] \<Longrightarrow> saveSunEntry pf w = w"
  by (simp add: saveSunEntry_def)

lemma save_spends:
  assumes "trim (shineDialogJournal w) \<noteq> []" and "1 \<le> sunAvailable w"
    and "currentShiningSprout w = Some (sid, twigId)"
  shows "sunAvailable (saveSunEntry pf w) = sunAvailable w - 1
    \<and> twigSunEntries (saveSunEntry pf w) twigId
        = twigSunEntries w twigId @
            [\<lparr>j_timestamp = toISOString (clockNow pf),
              j_content = trim (shineDialogJournal w), j_prompt = shineDialogPlaceholder w\<rparr>]
    \<and> newCalls w (saveSunEntry pf w)
        = [CanAffordSun True, SpendSun True, AddSunEntry twigId,
           OnSetStatus ''Light radiated on this life facet!'' Info]"
  using assms
  by (simp add: saveSunEntry_def canAffordSun_def spendSun_def addSunEntry_def logCall_def
      closeShineDialog_def updateSunMeter_def Let_def newCalls_def)

text \<open>
  C10. \<open>saveSunEntry\<close> does not ask the weekly gate again. With a journal text that is not
  empty after trimming, a sun to spend and a current shining Sprout, it spends one sun
  and appends exactly one reflection entry to the Twig, also when the Twig has a
  reflection of the current week already: its calls are \<^verbatim>\<open>canAffordSun\<close>,
  \<^verbatim>\<open>spendSun\<close>, \<^verbatim>\<open>addSunEntry\<close> and the status callback. With a text that trims to
  nothing it changes nothing and calls nothing.
\<close>

theorem save_skips_weekly_gate:
  "(trim (shineDialogJournal w) = [] \<longrightarrow> saveSunEntry pf w = w)
   \<and> (trim (shineDialogJournal w) \<noteq> [] \<and> 1 \<le> sunAvailable w
        \<and> currentShiningSprout w = Some (sid, twigId)
      \<longrightarrow> sunAvailable (saveSunEntry pf w) = sunAvailable w - 1
        \<and> twigSunEntries (saveSunEntry pf w) twigId
            = twigSunEntries w twigId @
                [\<lparr>j_timestamp = toISOString (clockNow pf),
                  j_content = trim (shineDialogJournal w),
                  j_prompt = shineDialogPlaceholder w\<rparr>]
        \<and> newCalls w (saveSunEntry pf w)
            = [CanAffordSun True, SpendSun True, AddSunEntry twigId,
               OnSetStatus ''Light radiated on this life facet!'' Info]
        \<and> WasShoneThisWeek t r \<notin> set (newCalls w (saveSunEntry pf w)))"
proof (intro conjI impI)
  assume "trim (shineDialogJournal w) = []"
  then show "saveSunEntry pf w = w" by (rule save_empty)
next
  assume a: "trim (shineDialogJournal w) \<noteq> [] \<and> 1 \<le> sunAvailable w
        \<and> currentShiningSprout w = Some (sid, twigId)"
  then have s: "sunAvailable (saveSunEntry pf w) = sunAvailable w - 1
    \<and> twigSunEntries (saveSunEntry pf w) twigId
        = twigSunEntries w twigId @
            [\<lparr>j_timestamp = toISOString (clockNow pf),
              j_content = trim (shineDialogJournal w), j_prompt = shineDialogPlaceholder w\<rparr>]
    \<and> newCalls w (saveSunEntry pf w)
        = [CanAffordSun True, SpendSun True, AddSunEntry twigId,
           OnSetStatus ''Light radiated on this life facet!'' Info]"
    using save_spends [of w sid twigId pf] by blast
  from s show "sunAvailable (saveSunEntry pf w) = sunAvailable w - 1" by blast
  from s show "twigSunEntries (saveSunEntry pf w) twigId
        = twigSunEntries w twigId @
            [\<lparr>j_timestamp = toISOString (clockNow pf),
              j_content = trim (shineDialogJournal w), j_prompt = shineDialogPlaceholder w\<rparr>]"
    by blast
  from s show n: "newCalls w (saveSunEntry pf w)
        = [CanAffordSun True, SpendSun True, AddSunEntry twigId,
           OnSetStatus ''Light radiated on this life facet!'' Info]"
    by blast
  show "WasShoneThisWeek t r \<notin> set (newCalls w (saveSunEntry pf w))"
    unfolding n by simp
qed

theorem save_skips_weekly_gate_witness:
  "fst (wasShoneThisWeek examplePlatform ''twig-1'' shoneDialog)
   \<and> trim (shineDialogJournal shoneDialog) = ''a good week''
   \<and> sunAvailable shoneDialog = 3
   \<and> currentShiningSprout shoneDialog = Some (''sprout-1'', ''twig-1'')
   \<and> sunAvailable (saveSunEntry examplePlatform shoneDialog) = 2
   \<and> twigSunEntries (saveSunEntry examplePlatform shoneDialog) ''twig-1''
       = [\<lparr>j_timestamp = ''2024-01-30T08:00:00.000Z'', j_content = ''steady'', j_prompt = None\<rparr>,
          \<lparr>j_timestamp = ''2024-01-31T07:00:00.000Z'', j_content = ''a good week'',
            j_prompt = Some ''What went well?''\<rparr>]
   \<and> trim (shineDialogJournal (shoneDialog\<lparr>shineDialogJournal := ''  ''\<rparr>)) = []
   \<and> calls (saveSunEntry examplePlatform (shoneDialog\<lparr>shineDialogJournal := ''  ''\<rparr>)) = []
   \<and> sunAvailable (saveSunEntry examplePlatform (shoneDialog\<lparr>shineDialogJournal := ''  ''\<rparr>)) = 3"
proof -
  have a: "fst (wasShoneThisWeek examplePlatform ''twig-1'' shoneDialog)" by code_simp
  have b: "trim (shineDialogJournal shoneDialog) = ''a good week''" by code_simp
  have c: "sunAvailable shoneDialog = 3"
    "currentShiningSprout shoneDialog = Some (''sprout-1'', ''twig-1'')"
    "shineDialogPlaceholder shoneDialog = Some ''What went well?''"
    "twigSunEntries shoneDialog ''twig-1''
       = [\<lparr>j_timestamp = ''2024-01-30T08:00:00.000Z'', j_content = ''steady'', j_prompt = None\<rparr>]"
    "calls shoneDialog = []"
    by (simp_all add: shoneDialog_def)
  have d: "toISOString (clockNow examplePlatform) = ''2024-01-31T07:00:00.000Z''" by code_simp
  have e: "trim (shineDialogJournal (shoneDialog\<lparr>shineDialogJournal := ''  ''\<rparr>)) = []"
    by code_simp
  from save_skips_weekly_gate [of shoneDialog examplePlatform "''sprout-1''" "''twig-1''"
      "''twig-1''" True] b c
  have f: "sunAvailable (saveSunEntry examplePlatform shoneDialog) = 2"
    "twigSunEntries (saveSunEntry examplePlatform shoneDialog) ''twig-1''
       = [\<lparr>j_timestamp = ''2024-01-30T08:00:00.000Z'', j_content = ''steady'', j_prompt = None\<rparr>,
          \<lparr>j_timestamp = ''2024-01-31T07:00:00.000Z'', j_content = ''a good week'',
            j_prompt = Some ''What went well?''\<rparr>]"
    by (simp_all add: d)
  from save_skips_weekly_gate [of "shoneDialog\<lparr>shineDialogJournal := ''  ''\<rparr>" examplePlatform
      "''sprout-1''" "''twig-1''" "''twig-1''" True] e
  have g: "saveSunEntry examplePlatform (shoneDialog\<lparr>shineDialogJournal := ''  ''\<rparr>)
       = shoneDialog\<lparr>shineDialogJournal := ''  ''\<rparr>"
    by blast
  from a b c e f show ?thesis unfolding g by simp
qed

section \<open>Prompt rotation\<close>

lemma bitLength_lower: "0 < n \<Longrightarrow> 2 ^ (bitLength n - 1) \<le> n"
proof (induction n rule: bitLength.induct)
  case (1 n)
  show ?case
  proof (cases "n div 2 = 0")
    case True
    with "1.prems" have "n = Suc 0" by (simp add: div_eq_0_iff)
    then show ?thesis by (simp add: bitLength.simps [of "Suc 0"] bitLength.simps [of 0])
  next
    case False
    then have pos: "0 < n div 2" by simp
    with "1.IH" "1.prems" have ih: "2 ^ (bitLength (n div 2) - 1) \<le> n div 2" by simp
    from pos have "0 < bitLength (n div 2)" by (simp add: bitLength.simps [of "n div 2"])
    then have "bitLength n - 1 = Suc (bitLength (n div 2) - 1)"
      using "1.prems" by (simp add: bitLength.simps [of n])
    then have "(2::nat) ^ (bitLength n - 1) = 2 * 2 ^ (bitLength (n div 2) - 1)" by simp
    also have "\<dots> \<le> 2 * (n div 2)" using ih by simp
    also have "\<dots> \<le> n" by simp
    finally show ?thesis .
  qed
qed

lemma roundTiesToEven_upper: "2 * roundTiesToEven s p \<le> 2 * p + 2 ^ s"
proof -
  define b :: nat where "b = 2 ^ s"
  define q r where "q = p div b" and "r = p mod b"
  have p: "p = q * b + r" unfolding q_def r_def by (rule div_mult_mod_eq [symmetric])
  have rt: "roundTiesToEven s p = (if b < 2 * r \<or> (2 * r = b \<and> odd q) then q + 1 else q) * b"
    by (simp add: roundTiesToEven_def Let_def b_def q_def r_def)
  show ?thesis
  proof (cases "b < 2 * r \<or> (2 * r = b \<and> odd q)")
    case True
    then have h: "b \<le> 2 * r" by auto
    from True have "2 * roundTiesToEven s p = 2 * (q * b) + 2 * b"
      unfolding rt by (simp add: algebra_simps)
    also have "\<dots> \<le> 2 * (q * b) + (2 * r + b)" using h by simp
    also have "\<dots> = 2 * p + b" unfolding p by simp
    finally show ?thesis by (simp only: b_def)
  next
    case False
    then have "roundTiesToEven s p = q * b" unfolding rt by (simp only: if_False)
    also have "\<dots> \<le> p" unfolding p by simp
    finally show ?thesis by simp
  qed
qed

lemma power_split:
  fixes e :: nat
  assumes "53 \<le> e"
  shows "(2::nat) ^ e = 2 ^ 53 * 2 ^ (e - 53)"
proof -
  from assms have "e = 53 + (e - 53)" by simp
  then have "(2::nat) ^ e = 2 ^ (53 + (e - 53))" by (rule arg_cong)
  also have "\<dots> = 2 ^ 53 * 2 ^ (e - 53)" by (rule power_add)
  finally show ?thesis .
qed

lemma below_one:
  fixes m e :: nat
  assumes "m < 2 ^ 53" and "53 \<le> e"
  shows "m + 2 ^ (e - 53) \<le> 2 ^ e"
proof -
  define a :: nat where "a = 2 ^ 53"
  define b :: nat where "b = 2 ^ (e - 53)"
  have b: "1 \<le> b" and a: "1 \<le> a" by (simp_all add: a_def b_def)
  have m: "m + 1 \<le> a" using assms(1) by (simp add: a_def)
  have "m + b \<le> m * b + b"  using b by simp
  also have "\<dots> = (m + 1) * b" by simp
  also have "\<dots> \<le> a * b" using m by (rule mult_le_mono1)
  also have "\<dots> = 2 ^ e" unfolding a_def b_def by (rule power_split [OF assms(2), symmetric])
  finally show ?thesis by (simp only: b_def)
qed

lemma random_index:
  assumes "isDouble u" and "0 < n"
  shows "floorTimes u n < n"
proof -
  define m e where "m = mantissa u" and "e = places u"
  define p where "p = m * n"
  define s where "s = bitLength p - 53"
  define d :: nat where "d = 2 ^ (e - 53)"
  define a :: nat where "a = 2 ^ 53"
  from assms(1) have m: "m < 2 ^ 53" and e: "53 \<le> e"
    by (simp_all add: isDouble_def m_def e_def)
  have split: "(2::nat) ^ e = a * d" unfolding a_def d_def using e by (rule power_split)
  have "m + d \<le> 2 ^ e" unfolding d_def using m e by (rule below_one)
  then have "n * (m + d) \<le> n * 2 ^ e" by (rule mult_le_mono2)
  then have gap: "p + n * d \<le> n * 2 ^ e" by (simp add: p_def algebra_simps)
  have c: "0 < n * d" using assms(2) by (simp add: d_def)
  have s: "2 ^ s < 2 * (n * d)"
  proof (cases "s = 0")
    case True
    from c have "1 \<le> n * d" by simp
    then have "1 < 2 * (n * d)" by linarith
    with True show ?thesis by simp
  next
    case False
    then have bl: "bitLength p - 1 = 52 + s" by (simp add: s_def)
    from False have "0 < p" by (cases "p = 0") (simp_all add: s_def bitLength.simps [of 0])
    then have "2 ^ (bitLength p - 1) \<le> p" by (rule bitLength_lower)
    then have "2 ^ (52 + s) \<le> p" by (simp only: bl)
    also have "p < n * 2 ^ e" using gap c by linarith
    finally have lt: "(2::nat) ^ (52 + s) < n * (a * d)" by (simp only: split)
    have "a * 2 ^ s = 2 * 2 ^ (52 + s)" unfolding a_def by (simp add: power_add)
    also have "\<dots> < 2 * (n * (a * d))" using lt by simp
    also have "\<dots> = a * (2 * (n * d))" by simp
    finally have "a * 2 ^ s < a * (2 * (n * d))" .
    then show ?thesis by (simp only: mult_less_cancel1)
  qed
  have "2 * timesDouble u n \<le> 2 * p + 2 ^ s"
    unfolding timesDouble_def Let_def s_def p_def m_def by (rule roundTiesToEven_upper)
  also have "\<dots> < 2 * p + 2 * (n * d)" using s by simp
  also have "\<dots> \<le> 2 * (n * 2 ^ e)" using gap by simp
  finally have "timesDouble u n < n * 2 ^ e" by simp
  then show ?thesis
    unfolding floorTimes_def e_def by (simp add: less_mult_imp_div_less)
qed

text \<open>The bit length of a number between two powers of 2.\<close>

lemma bitLength_eq:
  assumes "2 ^ k \<le> n" and "n < 2 ^ Suc k"
  shows "bitLength n = Suc k"
  using assms
proof (induction k arbitrary: n)
  case 0
  then have "n = Suc 0" by simp
  then show ?case by (simp add: bitLength.simps [of "Suc 0"] bitLength.simps [of 0])
next
  case (Suc k)
  from Suc.prems have "2 ^ k \<le> n div 2" and "n div 2 < 2 ^ Suc k" by simp_all
  then have "bitLength (n div 2) = Suc k" by (rule Suc.IH)
  moreover from Suc.prems have "n \<noteq> 0" by auto
  ultimately show ?case by (simp add: bitLength.simps [of n])
qed

lemma getRandomSunPrompt_pick:
  assumes "floorTimes u (length (candidates prompts recent)) = i"
  shows "getRandomSunPrompt prompts u recent = pick prompts recent (candidates prompts recent) i"
  using assms by (simp add: getRandomSunPrompt_def pick_def candidates_def Let_def)

lemma push_shift_lastN:
  assumes "length recent \<le> k"
  shows "(if length (recent @ [p]) > k then tl (recent @ [p]) else recent @ [p])
         = lastN k (recent @ [p])"
proof (cases "length (recent @ [p]) > k")
  case True
  with assms have "length (recent @ [p]) - k = Suc 0" by simp
  then have "lastN k (recent @ [p]) = drop (Suc 0) (recent @ [p])"
    unfolding lastN_def by (rule arg_cong)
  also have "\<dots> = tl (recent @ [p])" by (simp only: drop_Suc drop_0)
  finally show ?thesis using True by simp
next
  case False
  then show ?thesis by (simp add: lastN_def)
qed

lemma lastN_lastN_snoc: "lastN k (lastN k hist @ [p]) = lastN k (hist @ [p])"
proof (cases "length hist \<le> k")
  case True
  then show ?thesis by (simp add: lastN_def)
next
  case False
  then have l: "k < length hist" by simp
  show ?thesis
  proof (cases "k = 0")
    case True
    then show ?thesis by (simp add: lastN_def)
  next
    case False
    with l have a: "Suc (length hist) - k = Suc (length hist - k)"
      and b: "Suc k - k = Suc 0" and c: "length hist - (length hist - k) = k"
      and d: "drop (Suc 0 - k) [p] = [p]"
      by simp_all
    have "lastN k (lastN k hist @ [p]) = drop (Suc 0) (drop (length hist - k) hist) @ [p]"
      using l False by (simp add: lastN_def b c d)
    also have "\<dots> = drop (Suc (length hist - k)) hist @ [p]" by simp
    also have "\<dots> = lastN k (hist @ [p])" using l by (simp add: lastN_def a d)
    finally show ?thesis .
  qed
qed

lemma length_lastN: "length (lastN k xs) \<le> k"
  by (simp add: lastN_def)

lemma prompt_call:
  assumes "isDouble u" and "prompts \<noteq> []"
  shows "\<exists>q. fst (getRandomSunPrompt prompts u recent) = Some q \<and> q \<in> set prompts
     \<and> ((\<exists>x\<in>set prompts. Some x \<notin> set recent) \<longrightarrow> Some q \<notin> set recent)
     \<and> ((\<forall>x\<in>set prompts. Some x \<in> set recent)
          \<longrightarrow> q = prompts ! floorTimes u (length prompts))"
proof -
  let ?available = "filter (\<lambda>p. Some p \<notin> set recent) prompts"
  let ?pool = "if length ?available > 0 then ?available else prompts"
  let ?i = "floorTimes u (length ?pool)"
  have n: "0 < length ?pool" using assms(2) by simp
  have i: "?i < length ?pool"
    using random_index [OF assms(1) n] .
  then have m: "?pool ! ?i \<in> set ?pool" by (rule nth_mem)
  have f: "fst (getRandomSunPrompt prompts u recent) = Some (?pool ! ?i)"
    unfolding getRandomSunPrompt_def Let_def fst_conv using i by (simp only: simp_thms if_True)
  have s: "set ?pool \<subseteq> set prompts" by auto
  have e: "(\<exists>x\<in>set prompts. Some x \<notin> set recent) \<Longrightarrow> Some (?pool ! ?i) \<notin> set recent"
  proof -
    assume "\<exists>x\<in>set prompts. Some x \<notin> set recent"
    then have "?available \<noteq> []" by (auto simp: filter_empty_conv)
    then have "?pool = ?available" by simp
    with m have "?pool ! ?i \<in> set ?available" by simp
    then show ?thesis by simp
  qed
  have b: "(\<forall>x\<in>set prompts. Some x \<in> set recent)
     \<Longrightarrow> ?pool ! ?i = prompts ! floorTimes u (length prompts)"
  proof -
    assume "\<forall>x\<in>set prompts. Some x \<in> set recent"
    then have "?available = []" by (auto simp: filter_empty_conv)
    then show ?thesis by simp
  qed
  from f m s e b show ?thesis by blast
qed

lemma prompt_buffer:
  assumes "length recent \<le> RECENT_SUN_PROMPT_LIMIT prompts"
  shows "snd (getRandomSunPrompt prompts u recent)
      = lastN (RECENT_SUN_PROMPT_LIMIT prompts) (recent @ [fst (getRandomSunPrompt prompts u recent)])"
  using push_shift_lastN [OF assms]
  by (simp add: getRandomSunPrompt_def Let_def)

lemma promptRun_buffer:
  assumes "recent = lastN (RECENT_SUN_PROMPT_LIMIT prompts) hist"
  shows "snd (promptRun prompts us recent)
     = lastN (RECENT_SUN_PROMPT_LIMIT prompts) (hist @ fst (promptRun prompts us recent))"
  using assms
proof (induction us arbitrary: recent hist)
  case Nil
  then show ?case by simp
next
  case (Cons u us)
  let ?k = "RECENT_SUN_PROMPT_LIMIT prompts"
  let ?p = "fst (getRandomSunPrompt prompts u recent)"
  let ?r = "snd (getRandomSunPrompt prompts u recent)"
  have "length recent \<le> ?k" using Cons.prems by (simp add: length_lastN)
  then have "?r = lastN ?k (recent @ [?p])" by (rule prompt_buffer)
  also have "\<dots> = lastN ?k (hist @ [?p])" using Cons.prems by (simp add: lastN_lastN_snoc)
  finally have r: "?r = lastN ?k (hist @ [?p])" .
  from Cons.IH [OF r] show ?case by (simp add: split_beta Let_def)
qed

text \<open>
  C6 (amended). From a pool that is not empty, \<open>getRandomSunPrompt\<close> returns a prompt of
  the pool that is not among the recently returned ones, unless every prompt of the pool
  is among them, in which case it selects from the whole pool; the buffer of recent
  prompts holds the last \<open>k\<close> returned prompts, \<open>k = min 10 (size of the pool div 3)\<close>, and
  so never more than \<open>k\<close> elements. (\<open>u\<close> is a value of \<^verbatim>\<open>Math.random()\<close>, a double that is
  at least 0 and below 1.)
\<close>

theorem prompt_rotation:
  "(isDouble u \<and> prompts \<noteq> [] \<longrightarrow>
      (\<exists>q. fst (getRandomSunPrompt prompts u recent) = Some q \<and> q \<in> set prompts
         \<and> ((\<exists>x\<in>set prompts. Some x \<notin> set recent) \<longrightarrow> Some q \<notin> set recent)
         \<and> ((\<forall>x\<in>set prompts. Some x \<in> set recent)
              \<longrightarrow> q = prompts ! floorTimes u (length prompts))))
   \<and> RECENT_SUN_PROMPT_LIMIT prompts = min 10 (length prompts div 3)
   \<and> (length recent \<le> RECENT_SUN_PROMPT_LIMIT prompts \<longrightarrow>
        snd (getRandomSunPrompt prompts u recent)
          = lastN (RECENT_SUN_PROMPT_LIMIT prompts)
              (recent @ [fst (getRandomSunPrompt prompts u recent)])
        \<and> length (snd (getRandomSunPrompt prompts u recent)) \<le> RECENT_SUN_PROMPT_LIMIT prompts)
   \<and> snd (promptRun prompts us [])
        = lastN (RECENT_SUN_PROMPT_LIMIT prompts) (fst (promptRun prompts us []))
   \<and> length (snd (promptRun prompts us [])) \<le> RECENT_SUN_PROMPT_LIMIT prompts"
proof (intro conjI impI)
  assume "isDouble u \<and> prompts \<noteq> []"
  then show "\<exists>q. fst (getRandomSunPrompt prompts u recent) = Some q \<and> q \<in> set prompts
         \<and> ((\<exists>x\<in>set prompts. Some x \<notin> set recent) \<longrightarrow> Some q \<notin> set recent)
         \<and> ((\<forall>x\<in>set prompts. Some x \<in> set recent)
              \<longrightarrow> q = prompts ! floorTimes u (length prompts))"
    using prompt_call [of u prompts recent] by blast
next
  show "RECENT_SUN_PROMPT_LIMIT prompts = min 10 (length prompts div 3)"
    by (simp add: RECENT_SUN_PROMPT_LIMIT_def)
next
  assume a: "length recent \<le> RECENT_SUN_PROMPT_LIMIT prompts"
  then show b: "snd (getRandomSunPrompt prompts u recent)
          = lastN (RECENT_SUN_PROMPT_LIMIT prompts)
              (recent @ [fst (getRandomSunPrompt prompts u recent)])"
    by (rule prompt_buffer)
  show "length (snd (getRandomSunPrompt prompts u recent)) \<le> RECENT_SUN_PROMPT_LIMIT prompts"
    unfolding b by (rule length_lastN)
next
  have "[] = lastN (RECENT_SUN_PROMPT_LIMIT prompts) []" by (simp add: lastN_def)
  from promptRun_buffer [OF this, of us]
  show r: "snd (promptRun prompts us [])
        = lastN (RECENT_SUN_PROMPT_LIMIT prompts) (fst (promptRun prompts us []))"
    by simp
  show "length (snd (promptRun prompts us [])) \<le> RECENT_SUN_PROMPT_LIMIT prompts"
    unfolding r by (rule length_lastN)
qed

text \<open>
  Three calls with \<^verbatim>\<open>Math.random()\<close> at 0.7 on the pool of ten with the repeated prompt,
  \<open>k = 3\<close>. The product of the doubles 0.7 and 10 is 7. The first call returns the prompt
  at index 7 of the pool, the second the prompt at index 4 of the seven that are left,
  and for the third call every prompt of the pool is among the recent ones: it selects
  from the whole pool, index 7 again.
\<close>

theorem prompt_rotation_witness:
  "isDouble sevenTenths \<and> repeatedPrompts \<noteq> []
   \<and> RECENT_SUN_PROMPT_LIMIT repeatedPrompts = 3
   \<and> floorTimes sevenTenths 10 = 7 \<and> floorTimes sevenTenths 7 = 4
   \<and> promptRun repeatedPrompts [sevenTenths, sevenTenths] []
       = ([Some ''What was hard?'', Some ''What went well?''],
          [Some ''What was hard?'', Some ''What went well?''])
   \<and> list_all (\<lambda>x. Some x \<in> set [Some ''What was hard?'', Some ''What went well?''])
        repeatedPrompts
   \<and> getRandomSunPrompt repeatedPrompts sevenTenths
        [Some ''What was hard?'', Some ''What went well?'']
       = (Some (repeatedPrompts ! 7),
          [Some ''What was hard?'', Some ''What went well?'', Some ''What was hard?''])
   \<and> fst (getRandomSunPrompt repeatedPrompts sevenTenths
            [Some ''What was hard?'', Some ''What went well?''])
       = Some (repeatedPrompts ! floorTimes sevenTenths (length repeatedPrompts))
   \<and> repeatedPrompts ! 7 = ''What was hard?''
   \<and> length (snd (promptRun repeatedPrompts [sevenTenths, sevenTenths, sevenTenths] [])) \<le> 3
   \<and> getRandomSunPrompt repeatedPrompts half [Some ''What was hard?'']
       = (Some ''What went well?'', [Some ''What was hard?'', Some ''What went well?''])
   \<and> Some ''What went well?'' \<notin> set [Some ''What was hard?'']"
proof -
  let ?recent = "[Some ''What was hard?'', Some ''What went well?'']"
  let ?us = "[sevenTenths, sevenTenths, sevenTenths]"
  have a1: "isDouble sevenTenths" by (simp add: isDouble_def sevenTenths_def)
  have a2: "repeatedPrompts \<noteq> []" by (simp add: repeatedPrompts_def)
  have k: "RECENT_SUN_PROMPT_LIMIT repeatedPrompts = 3" by code_simp
  have b10: "bitLength 63050394783186940 = Suc 55" by (rule bitLength_eq) simp_all
  have b7: "bitLength 44135276348230858 = Suc 55" by (rule bitLength_eq) simp_all
  have bh: "bitLength 31525197391593472 = Suc 54" by (rule bitLength_eq) simp_all
  have i10: "floorTimes sevenTenths 10 = 7"
    by (simp add: floorTimes_def timesDouble_def sevenTenths_def roundTiesToEven_def Let_def b10)
  have i7: "floorTimes sevenTenths 7 = 4"
    by (simp add: floorTimes_def timesDouble_def sevenTenths_def roundTiesToEven_def Let_def b7)
  have ih: "floorTimes half 7 = 3"
    by (simp add: floorTimes_def timesDouble_def half_def roundTiesToEven_def Let_def bh)
  have "length (candidates repeatedPrompts []) = 10" by code_simp
  then have "floorTimes sevenTenths (length (candidates repeatedPrompts [])) = 7"
    by (simp only: i10)
  then have "getRandomSunPrompt repeatedPrompts sevenTenths []
     = pick repeatedPrompts [] (candidates repeatedPrompts []) 7"
    by (rule getRandomSunPrompt_pick)
  also have "\<dots> = (Some ''What was hard?'', [Some ''What was hard?''])" by code_simp
  finally have c1: "getRandomSunPrompt repeatedPrompts sevenTenths []
     = (Some ''What was hard?'', [Some ''What was hard?''])" .
  have l7: "length (candidates repeatedPrompts [Some ''What was hard?'']) = 7" by code_simp
  then have "floorTimes sevenTenths (length (candidates repeatedPrompts [Some ''What was hard?'']))
      = 4"
    by (simp only: i7)
  then have "getRandomSunPrompt repeatedPrompts sevenTenths [Some ''What was hard?'']
     = pick repeatedPrompts [Some ''What was hard?'']
         (candidates repeatedPrompts [Some ''What was hard?'']) 4"
    by (rule getRandomSunPrompt_pick)
  also have "\<dots> = (Some ''What went well?'', ?recent)" by code_simp
  finally have c2: "getRandomSunPrompt repeatedPrompts sevenTenths [Some ''What was hard?'']
     = (Some ''What went well?'', ?recent)" .
  have r: "promptRun repeatedPrompts [sevenTenths, sevenTenths] [] = (?recent, ?recent)"
    by (simp add: c1 c2)
  have l: "list_all (\<lambda>x. Some x \<in> set ?recent) repeatedPrompts" by code_simp
  then have all: "\<forall>x\<in>set repeatedPrompts. Some x \<in> set ?recent"
    by (simp only: list_all_iff)
  have "length (candidates repeatedPrompts ?recent) = 10" by code_simp
  then have "floorTimes sevenTenths (length (candidates repeatedPrompts ?recent)) = 7"
    by (simp only: i10)
  then have "getRandomSunPrompt repeatedPrompts sevenTenths ?recent
     = pick repeatedPrompts ?recent (candidates repeatedPrompts ?recent) 7"
    by (rule getRandomSunPrompt_pick)
  also have "\<dots> = (Some (repeatedPrompts ! 7),
          [Some ''What was hard?'', Some ''What went well?'', Some ''What was hard?''])"
    by code_simp
  finally have c3: "getRandomSunPrompt repeatedPrompts sevenTenths ?recent
     = (Some (repeatedPrompts ! 7),
          [Some ''What was hard?'', Some ''What went well?'', Some ''What was hard?''])" .
  have p: "repeatedPrompts ! 7 = ''What was hard?''" by code_simp
  from l7 have "floorTimes half (length (candidates repeatedPrompts [Some ''What was hard?'']))
      = 3"
    by (simp only: ih)
  then have "getRandomSunPrompt repeatedPrompts half [Some ''What was hard?'']
     = pick repeatedPrompts [Some ''What was hard?'']
         (candidates repeatedPrompts [Some ''What was hard?'']) 3"
    by (rule getRandomSunPrompt_pick)
  also have "\<dots> = (Some ''What went well?'', ?recent)" by code_simp
  finally have h: "getRandomSunPrompt repeatedPrompts half [Some ''What was hard?'']
     = (Some ''What went well?'', ?recent)" .
  have x: "Some ''What went well?'' \<notin> set [Some ''What was hard?'']" by simp
  note inst = prompt_rotation [of sevenTenths repeatedPrompts ?recent ?us]
  from inst a1 a2 obtain q
    where q: "fst (getRandomSunPrompt repeatedPrompts sevenTenths ?recent) = Some q"
      and f: "(\<forall>x\<in>set repeatedPrompts. Some x \<in> set ?recent)
              \<longrightarrow> q = repeatedPrompts ! floorTimes sevenTenths (length repeatedPrompts)"
    by blast
  from f all have "q = repeatedPrompts ! floorTimes sevenTenths (length repeatedPrompts)"
    by blast
  with q have g: "fst (getRandomSunPrompt repeatedPrompts sevenTenths ?recent)
      = Some (repeatedPrompts ! floorTimes sevenTenths (length repeatedPrompts))"
    by simp
  from inst have "length (snd (promptRun repeatedPrompts ?us []))
      \<le> RECENT_SUN_PROMPT_LIMIT repeatedPrompts"
    by blast
  then have b: "length (snd (promptRun repeatedPrompts ?us [])) \<le> 3" by (simp only: k)
  show ?thesis by (intro conjI a1 a2 k i10 i7 r l c3 g p b h x)
qed

text \<open>
  The claim C6 as it is stated, for every pool: from the empty pool the index 0 reads
  \<^verbatim>\<open>undefined\<close>; the call returns no prompt, and \<^verbatim>\<open>undefined\<close> is what the placeholder
  of the dialog is set to.
\<close>

theorem prompt_rotation_counterexample:
  "getRandomSunPrompt [] half [] = (None, [])
   \<and> floorTimes half 0 = 0
   \<and> RECENT_SUN_PROMPT_LIMIT [] = 0"
  by (simp add: getRandomSunPrompt_def RECENT_SUN_PROMPT_LIMIT_def Let_def floorTimes_def
      timesDouble_def roundTiesToEven_def bitLength.simps [of 0])

section \<open>Purity of the unified log\<close>

lemma updateEntries_last:
  "updateEntries (length h) f (h @ [EntryArray es]) = h @ [EntryArray (f es)]"
  by (simp add: updateEntries_def lookup_def)

lemma sproutsAt_append:
  "lookup h a = Some (SproutArray sprouts) \<Longrightarrow> sproutsAt (h @ cs) a = sprouts"
  by (auto simp: sproutsAt_def lookup_def nth_append split: if_splits)

lemma loop_in_heap:
  assumes "lookup h a = Some (SproutArray sprouts)"
  shows "foldl (\<lambda>h' sprout. updateEntries (length h) (\<lambda>es. push (sproutsAt h' a) es sprout) h')
           (h @ [EntryArray es]) xs
         = h @ [EntryArray (foldl (push sprouts) es xs)]"
proof (induction xs arbitrary: es)
  case Nil
  then show ?case by simp
next
  case (Cons x xs)
  have "updateEntries (length h) (\<lambda>ys. push (sproutsAt (h @ [EntryArray es]) a) ys x)
          (h @ [EntryArray es])
        = h @ [EntryArray (push sprouts es x)]"
    by (simp add: updateEntries_last sproutsAt_append [OF assms])
  with Cons.IH [of "push sprouts es x"] show ?case by simp
qed

lemma buildLogIn_result:
  assumes "lookup h a = Some (SproutArray sprouts)"
  shows "buildLogIn push getTime a h
     = Some (length h,
         h @ [EntryArray (arraySort (byTimestampDesc getTime) (foldl (push sprouts) [] sprouts))])"
  using assms
  by (simp add: buildLogIn_def newArray_def loop_in_heap [OF assms] updateEntries_last)

lemma buildUnifiedLogIn_result:
  assumes "lookup h a = Some (SproutArray sprouts)"
  shows "buildUnifiedLogIn getTime a h
       = Some (length h, h @ [EntryArray (buildUnifiedLog getTime sprouts)])"
    and "buildUnifiedLogIn0 getTime a h
       = Some (length h, h @ [EntryArray (buildUnifiedLog0 getTime sprouts)])"
  using buildLogIn_result [OF assms]
  by (simp_all add: buildUnifiedLogIn_def buildUnifiedLogIn0_def buildUnifiedLog_def
      buildUnifiedLog0_def collectEntries_def collectEntries0_def)

lemma lookup_append:
  "lookup h a = Some c \<Longrightarrow> lookup (h @ cs) a = Some c"
  by (auto simp: lookup_def nth_append split: if_splits)

lemma returned_fresh: "returned (Some (length h, h @ [EntryArray es])) = Some es"
  by (simp add: returned_def lookup_def)

text \<open>
  C9. \<open>buildUnifiedLog\<close> is deterministic and free of side effects. Called on the array of
  Sprouts at an address of any store, it returns a new array whose contents are a function
  of those Sprouts alone; the store after the call is the store before it with that one
  new cell, so the argument and its Sprouts are as they were; a second call on the store
  it left, and a call on any other store that holds the same Sprouts, return the same
  contents. Both revisions.
\<close>

theorem unified_log_pure:
  "lookup h a = Some (SproutArray sprouts) \<longrightarrow>
     (buildUnifiedLogIn getTime a h
        = Some (length h, h @ [EntryArray (buildUnifiedLog getTime sprouts)])
      \<and> buildUnifiedLogIn getTime a (h @ [EntryArray (buildUnifiedLog getTime sprouts)])
        = Some (Suc (length h),
            h @ [EntryArray (buildUnifiedLog getTime sprouts),
                 EntryArray (buildUnifiedLog getTime sprouts)])
      \<and> (lookup g b = Some (SproutArray sprouts) \<longrightarrow>
            returned (buildUnifiedLogIn getTime b g) = returned (buildUnifiedLogIn getTime a h)))
     \<and> (buildUnifiedLogIn0 getTime a h
        = Some (length h, h @ [EntryArray (buildUnifiedLog0 getTime sprouts)])
      \<and> buildUnifiedLogIn0 getTime a (h @ [EntryArray (buildUnifiedLog0 getTime sprouts)])
        = Some (Suc (length h),
            h @ [EntryArray (buildUnifiedLog0 getTime sprouts),
                 EntryArray (buildUnifiedLog0 getTime sprouts)])
      \<and> (lookup g b = Some (SproutArray sprouts) \<longrightarrow>
            returned (buildUnifiedLogIn0 getTime b g)
              = returned (buildUnifiedLogIn0 getTime a h)))"
proof (intro impI)
  assume a: "lookup h a = Some (SproutArray sprouts)"
  let ?L = "buildUnifiedLog getTime sprouts" and ?M = "buildUnifiedLog0 getTime sprouts"
  note first = buildUnifiedLogIn_result [OF a, of getTime]
  have a1: "lookup (h @ [EntryArray ?L]) a = Some (SproutArray sprouts)"
    and a0: "lookup (h @ [EntryArray ?M]) a = Some (SproutArray sprouts)"
    using a by (rule lookup_append)+
  have second: "buildUnifiedLogIn getTime a (h @ [EntryArray ?L])
      = Some (Suc (length h), h @ [EntryArray ?L, EntryArray ?L])"
    using buildUnifiedLogIn_result(1) [OF a1, of getTime] by simp
  have second0: "buildUnifiedLogIn0 getTime a (h @ [EntryArray ?M])
      = Some (Suc (length h), h @ [EntryArray ?M, EntryArray ?M])"
    using buildUnifiedLogIn_result(2) [OF a0, of getTime] by simp
  have other: "returned (buildUnifiedLogIn getTime b g) = returned (buildUnifiedLogIn getTime a h)"
    and other0: "returned (buildUnifiedLogIn0 getTime b g)
      = returned (buildUnifiedLogIn0 getTime a h)"
    if "lookup g b = Some (SproutArray sprouts)"
    using buildUnifiedLogIn_result [OF that, of getTime] first
    by (simp_all add: returned_fresh)
  from first second second0 other other0
  show "(buildUnifiedLogIn getTime a h = Some (length h, h @ [EntryArray ?L])
      \<and> buildUnifiedLogIn getTime a (h @ [EntryArray ?L])
        = Some (Suc (length h), h @ [EntryArray ?L, EntryArray ?L])
      \<and> (lookup g b = Some (SproutArray sprouts) \<longrightarrow>
            returned (buildUnifiedLogIn getTime b g) = returned (buildUnifiedLogIn getTime a h)))
     \<and> (buildUnifiedLogIn0 getTime a h = Some (length h, h @ [EntryArray ?M])
      \<and> buildUnifiedLogIn0 getTime a (h @ [EntryArray ?M])
        = Some (Suc (length h), h @ [EntryArray ?M, EntryArray ?M])
      \<and> (lookup g b = Some (SproutArray sprouts) \<longrightarrow>
            returned (buildUnifiedLogIn0 getTime b g)
              = returned (buildUnifiedLogIn0 getTime a h)))"
    by blast
qed

theorem unified_log_pure_witness:
  "lookup [SproutArray [exampleSprout, graftedSprout]] 0
     = Some (SproutArray [exampleSprout, graftedSprout])
   \<and> lookup [EntryArray [], SproutArray [exampleSprout, graftedSprout]] 1
     = Some (SproutArray [exampleSprout, graftedSprout])
   \<and> buildUnifiedLogIn exampleClock 0 [SproutArray [exampleSprout, graftedSprout]]
     = Some (1, [SproutArray [exampleSprout, graftedSprout],
                 EntryArray (buildUnifiedLog exampleClock [exampleSprout, graftedSprout])])
   \<and> returned (buildUnifiedLogIn exampleClock 1
         [EntryArray [], SproutArray [exampleSprout, graftedSprout]])
     = returned (buildUnifiedLogIn exampleClock 0 [SproutArray [exampleSprout, graftedSprout]])
   \<and> map entryType (buildUnifiedLog exampleClock [exampleSprout, graftedSprout])
     = [Shining, SproutStart, GraftOrigin, Completion, Watering, SproutStart]"
proof -
  have a: "lookup [SproutArray [exampleSprout, graftedSprout]] 0
     = Some (SproutArray [exampleSprout, graftedSprout])"
    and b: "lookup [EntryArray [], SproutArray [exampleSprout, graftedSprout]] 1
     = Some (SproutArray [exampleSprout, graftedSprout])"
    by (simp_all add: lookup_def)
  have c: "map entryType (buildUnifiedLog exampleClock [exampleSprout, graftedSprout])
     = [Shining, SproutStart, GraftOrigin, Completion, Watering, SproutStart]"
    by code_simp
  from unified_log_pure [of "[SproutArray [exampleSprout, graftedSprout]]" 0
      "[exampleSprout, graftedSprout]" exampleClock
      "[EntryArray [], SproutArray [exampleSprout, graftedSprout]]" 1] a b c
  show ?thesis by simp
qed

section \<open>End dates\<close>

lemma div_succ:
  fixes a n :: int
  assumes "0 < n"
  shows "(a + 1) div n = a div n + (if (a + 1) mod n = 0 then 1 else 0)"
proof (cases "a mod n + 1 < n")
  case True
  have e: "a + 1 = n * (a div n) + (a mod n + 1)" by simp
  have p: "0 \<le> a mod n + 1" using assms by (simp add: add_nonneg_nonneg)
  have "(a + 1) div n = a div n" using e p True by (rule int_div_pos_eq)
  moreover have "(a + 1) mod n = a mod n + 1" using e p True by (rule int_mod_pos_eq)
  moreover have "0 < a mod n + 1" using assms by (simp add: add_nonneg_pos)
  ultimately show ?thesis by simp
next
  case False
  moreover have "a mod n < n" using assms by simp
  ultimately have m: "a mod n = n - 1" by simp
  have e: "a + 1 = n * (a div n + 1) + 0" 
  proof -
    have "a = n * (a div n) + a mod n" by simp
    then have "a + 1 = n * (a div n) + n" using m by simp
    then show ?thesis by (simp add: algebra_simps)
  qed
  have "(a + 1) div n = a div n + 1" using e _ assms by (rule int_div_pos_eq) simp
  moreover have "(a + 1) mod n = 0" using e _ assms by (rule int_mod_pos_eq) simp
  ultimately show ?thesis by simp
qed

lemma m4: "(y - 1968) mod 4 = y mod 4" for y :: int
  using mod_mult_self2 [of y 4 "-492"] by simp

lemma m100: "(y - 1900) mod 100 = y mod 100" for y :: int
  using mod_mult_self2 [of y 100 "-19"] by simp

lemma m400: "(y - 1600) mod 400 = y mod 400" for y :: int
  using mod_mult_self2 [of y 400 "-4"] by simp

lemma mod_400_100:
  fixes y :: int
  assumes "y mod 400 = 0"
  shows "y mod 100 = 0"
proof -
  have "(100::int) dvd 400" by simp
  moreover have "400 dvd y" using assms by (simp add: mod_eq_0_iff_dvd)
  ultimately have "100 dvd y" by (rule dvd_trans)
  then show ?thesis by simp
qed

lemma mod_100_4:
  fixes y :: int
  assumes "y mod 100 = 0"
  shows "y mod 4 = 0"
proof -
  have "(4::int) dvd 100" by simp
  moreover have "100 dvd y" using assms by (simp add: mod_eq_0_iff_dvd)
  ultimately have "4 dvd y" by (rule dvd_trans)
  then show ?thesis by simp
qed

lemma DayFromYear_step: "DayFromYear (y + 1) = DayFromYear y + DaysInYear y"
proof -
  have a: "(y + 1 - 1969) div 4 = (y - 1969) div 4 + (if y mod 4 = 0 then 1 else 0)"
    using div_succ [of 4 "y - 1969"] m4 [of y] by (simp add: algebra_simps)
  have b: "(y + 1 - 1901) div 100 = (y - 1901) div 100 + (if y mod 100 = 0 then 1 else 0)"
    using div_succ [of 100 "y - 1901"] m100 [of y] by (simp add: algebra_simps)
  have c: "(y + 1 - 1601) div 400 = (y - 1601) div 400 + (if y mod 400 = 0 then 1 else 0)"
    using div_succ [of 400 "y - 1601"] m400 [of y] by (simp add: algebra_simps)
  show ?thesis
    unfolding DayFromYear_def DaysInYear_def a b c
    using mod_400_100 [of y] mod_100_4 [of y] by auto
qed

lemma div_bounds:
  fixes x n :: int
  assumes "0 < n"
  shows "n * (x div n) \<le> x" and "x < n * (x div n) + n"
  using mult_div_mod_eq [of n x] pos_mod_bound [OF assms, of x] pos_mod_sign [OF assms, of x]
  by linarith+

lemma estimate_lower:
  fixes d q A B C :: int
  assumes "146097 * q \<le> 400 * d"
    and "4 * A \<le> q" and "q + 68 < 100 * B + 100" and "400 * C \<le> q + 368"
  shows "365 * (q - 1) + A - B + C \<le> d"
proof -
  have b: "q < 100 * B + 32" using assms(3) by simp
  have "146000 * q - 146000 + 400 * A - 400 * B + 400 * C \<le> 146097 * q"
    using assms(2) b assms(4) by linarith
  from this assms(1) have "146000 * q - 146000 + 400 * A - 400 * B + 400 * C \<le> 400 * d"
    by (rule order_trans)
  moreover have "146000 * q - 146000 + 400 * A - 400 * B + 400 * C
      = 400 * (365 * (q - 1) + A - B + C)"
    by (simp add: algebra_simps)
  ultimately have "400 * (365 * (q - 1) + A - B + C) \<le> 400 * d" by (simp only:)
  then show ?thesis by (simp only: mult_le_cancel_left_pos zero_less_numeral)
qed

lemma estimate_upper:
  fixes d q A B C :: int
  assumes "400 * d < 146097 * q + 146097"
    and "q + 3 < 4 * A + 4" and "100 * B \<le> q + 71" and "q + 371 < 400 * C + 400"
  shows "d < 365 * (q + 2) + A - B + C"
proof -
  have a: "q < 4 * A + 1" using assms(2) by simp
  have c: "q < 400 * C + 29" using assms(4) by simp
  have "146097 * q + 146097 \<le> 146000 * q + 292000 + 400 * A - 400 * B + 400 * C"
    using a assms(3) c by linarith
  with assms(1) have "400 * d < 146000 * q + 292000 + 400 * A - 400 * B + 400 * C"
    by (rule less_le_trans)
  moreover have "146000 * q + 292000 + 400 * A - 400 * B + 400 * C
      = 400 * (365 * (q + 2) + A - B + C)"
    by (simp add: algebra_simps)
  ultimately have "400 * d < 400 * (365 * (q + 2) + A - B + C)" by (simp only:)
  then show ?thesis by (simp only: mult_less_cancel_left_pos zero_less_numeral)
qed

lemma year_estimate:
  fixes d :: int
  defines "g \<equiv> 1970 + (400 * d) div 146097"
  shows "DayFromYear (g - 1) \<le> d" and "d < DayFromYear (g + 2)"
proof -
  define q where "q = (400 * d) div 146097"
  have q: "146097 * q \<le> 400 * d" "400 * d < 146097 * q + 146097"
    unfolding q_def using div_bounds [of 146097 "400 * d"] by simp_all
  have g: "g = 1970 + q" by (simp add: g_def q_def)
  have lo: "DayFromYear (g - 1) = 365 * (q - 1) + q div 4 - (q + 68) div 100 + (q + 368) div 400"
    by (simp add: DayFromYear_def g add.commute)
  have hi: "DayFromYear (g + 2)
      = 365 * (q + 2) + (q + 3) div 4 - (q + 71) div 100 + (q + 371) div 400"
    by (simp add: DayFromYear_def g add.commute)
  show "DayFromYear (g - 1) \<le> d"
    unfolding lo
    using estimate_lower [of q d "q div 4" "(q + 68) div 100" "(q + 368) div 400"] q
      div_bounds [of 4 q] div_bounds [of 100 "q + 68"] div_bounds [of 400 "q + 368"]
    by simp
  show "d < DayFromYear (g + 2)"
    unfolding hi
    using estimate_upper [of d q "(q + 3) div 4" "(q + 71) div 100" "(q + 371) div 400"] q
      div_bounds [of 4 "q + 3"] div_bounds [of 100 "q + 71"] div_bounds [of 400 "q + 371"]
    by simp
qed

lemma YearFromTime_bounds:
  shows "DayFromYear (YearFromTime t) \<le> Day t"
    and "Day t < DayFromYear (YearFromTime t + 1)"
proof -
  define g where "g = 1970 + (400 * Day t) div 146097"
  have e: "DayFromYear (g - 1) \<le> Day t" "Day t < DayFromYear (g + 2)"
    unfolding g_def using year_estimate [of "Day t"] by simp_all
  have y: "YearFromTime t = (if DayFromYear (g + 1) \<le> Day t then g + 1
      else if DayFromYear g \<le> Day t then g else g - 1)"
    by (simp add: YearFromTime_def Let_def g_def)
  have s: "g + 1 + 1 = g + 2" "g - 1 + 1 = g" by simp_all
  show "DayFromYear (YearFromTime t) \<le> Day t" unfolding y using e by simp
  show "Day t < DayFromYear (YearFromTime t + 1)" unfolding y using e by (simp add: s)
qed

lemma DaysInYear_pos: "0 < DaysInYear y"
  by (simp add: DaysInYear_def)

lemma DayFromYear_mono:
  assumes "y \<le> z"
  shows "DayFromYear y \<le> DayFromYear z"
  using assms
proof (induction z rule: int_ge_induct)
  case base
  then show ?case by simp
next
  case (step i)
  then show ?case using DayFromYear_step [of i] DaysInYear_pos [of i] by simp
qed

lemma YearFromTime_unique:
  assumes "DayFromYear y \<le> Day t" and "Day t < DayFromYear (y + 1)"
  shows "YearFromTime t = y"
proof (rule ccontr)
  assume n: "YearFromTime t \<noteq> y"
  note b = YearFromTime_bounds(1) [of t] YearFromTime_bounds(2) [of t]
  show False
  proof (cases "YearFromTime t < y")
    case True
    then have "DayFromYear (YearFromTime t + 1) \<le> DayFromYear y"
      by (intro DayFromYear_mono) simp
    with b(2) assms(1) show False by simp
  next
    case False
    with n have "y + 1 \<le> YearFromTime t" by simp
    then have "DayFromYear (y + 1) \<le> DayFromYear (YearFromTime t)" by (rule DayFromYear_mono)
    with b(1) assms(2) show False by simp
  qed
qed

lemma MonthFromTime_range: "0 \<le> MonthFromTime t \<and> MonthFromTime t \<le> 11"
  by (simp add: MonthFromTime_def monthOfDay_def)

lemma Day_fields:
  "Day t = DayFromYear (YearFromTime t) + monthStart (InLeapYear t) (MonthFromTime t)
           + DateFromTime t - 1"
  by (simp add: DateFromTime_def DayWithinYear_def)

lemma MakeDay_date: "MakeDay y m dt = firstOfMonth y m + dt - 1"
  by (simp add: MakeDay_def firstOfMonth_def Let_def)

lemma firstOfMonth_own:
  "firstOfMonth (YearFromTime t) (MonthFromTime t) = Day t - DateFromTime t + 1"
proof -
  have "MonthFromTime t div 12 = 0" and "MonthFromTime t mod 12 = MonthFromTime t"
    using MonthFromTime_range [of t] by simp_all
  then show ?thesis
    using Day_fields [of t] by (simp add: firstOfMonth_def MakeDay_def InLeapYear_def Let_def)
qed

lemma firstOfMonth_year: "firstOfMonth (y + 1) m = firstOfMonth y (m + 12)"
proof -
  have a: "(m + 12) div 12 = m div 12 + 1" and b: "(m + 12) mod 12 = m mod 12" by simp_all
  have c: "y + 1 + m div 12 = y + (m div 12 + 1)" by simp
  show ?thesis unfolding firstOfMonth_def MakeDay_def Let_def a b c by (rule refl)
qed

lemma Day_TimeWithinDay: "Day t * msPerDay + TimeWithinDay t = t"
  by (simp add: Day_def TimeWithinDay_def)

lemma MakeDate_shift:
  assumes "d = Day lt + n"
  shows "MakeDate d (TimeWithinDay lt) = lt + n * msPerDay"
proof -
  have "MakeDate d (TimeWithinDay lt) = (Day lt * msPerDay + TimeWithinDay lt) + n * msPerDay"
    unfolding MakeDate_def assms by (simp add: distrib_right)
  then show ?thesis by (simp only: Day_TimeWithinDay)
qed

lemma set_local_date:
  "MakeDate (MakeDay y m (DateFromTime lt)) (TimeWithinDay lt)
     = lt + (firstOfMonth y m - firstOfMonth (YearFromTime lt) (MonthFromTime lt)) * msPerDay"
proof -
  have "MakeDay y m (DateFromTime lt) = Day lt + (firstOfMonth y m
      - firstOfMonth (YearFromTime lt) (MonthFromTime lt))"
    by (simp add: MakeDay_date firstOfMonth_own)
  then show ?thesis by (rule MakeDate_shift)
qed

lemma setDate_days: "setDate z (getDate z t + n) t = UTC z (LocalTime z t + n * msPerDay)"
proof -
  let ?lt = "LocalTime z t"
  have "MakeDay (YearFromTime ?lt) (MonthFromTime ?lt) (DateFromTime ?lt + n) = Day ?lt + n"
    by (simp add: MakeDay_date firstOfMonth_own)
  then have "MakeDate (MakeDay (YearFromTime ?lt) (MonthFromTime ?lt) (DateFromTime ?lt + n))
       (TimeWithinDay ?lt) = ?lt + n * msPerDay"
    by (rule MakeDate_shift)
  then show ?thesis
    by (simp add: setDate_def getDate_def Let_def)
qed

lemma setMonth_months:
  "setMonth z (getMonth z t + n) t
     = UTC z (LocalTime z t
              + (firstOfMonth (getFullYear z t) (getMonth z t + n)
                 - firstOfMonth (getFullYear z t) (getMonth z t)) * msPerDay)"
  using set_local_date [of "YearFromTime (LocalTime z t)" _ "LocalTime z t"]
  by (simp add: setMonth_def getMonth_def getFullYear_def Let_def)

lemma setFullYear_year:
  "setFullYear z (getFullYear z t + 1) t
     = UTC z (LocalTime z t
              + (firstOfMonth (getFullYear z t) (getMonth z t + 12)
                 - firstOfMonth (getFullYear z t) (getMonth z t)) * msPerDay)"
  using set_local_date [of "YearFromTime (LocalTime z t) + 1" _ "LocalTime z t"]
  by (simp add: setFullYear_def getMonth_def getFullYear_def Let_def firstOfMonth_year)

lemma addSeason_moved: "addSeason z sn t = UTC z (movedLocal z sn t)"
  by (cases sn)
     (simp_all add: setDate_days setMonth_months setFullYear_year seasonDays_def
        seasonMonths_def movedLocal_def)

text \<open>In a zone of constant offset, moving the local time is moving the time value.\<close>

lemma addSeason_fixed_offset:
  assumes "offsetAtUTC z = (\<lambda>t. c)" and "offsetAtLocal z = (\<lambda>t. c)"
  shows "addSeason z sn t
     = t + (seasonDays sn
            + (firstOfMonth (getFullYear z t) (getMonth z t + seasonMonths sn)
               - firstOfMonth (getFullYear z t) (getMonth z t))) * msPerDay"
  by (simp add: addSeason_moved movedLocal_def UTC_def LocalTime_def assms)

lemma setUTCHours_day:
  assumes "0 \<le> MakeTime h m s ms" and "MakeTime h m s ms < msPerDay"
  shows "Day (setUTCHours h m s ms tv) = Day tv"
    and "TimeWithinDay (setUTCHours h m s ms tv) = MakeTime h m s ms"
proof -
  have e: "setUTCHours h m s ms tv = msPerDay * Day tv + MakeTime h m s ms"
    by (simp add: setUTCHours_def MakeDate_def)
  show "Day (setUTCHours h m s ms tv) = Day tv"
    unfolding Day_def [of "setUTCHours h m s ms tv"] using e assms by (rule int_div_pos_eq)
  show "TimeWithinDay (setUTCHours h m s ms tv) = MakeTime h m s ms"
    unfolding TimeWithinDay_def using e assms by (rule int_mod_pos_eq)
qed

lemma DaysInYear_leap: "DaysInYear y = 365 + leapDays y"
  by (simp add: leapDays_def DaysInYear_def)

lemma leapDays_cases: "leapDays y = 0 \<or> leapDays y = 1"
  by (simp add: leapDays_def)

lemma month_cases:
  fixes m :: int
  assumes "0 \<le> m" and "m < 12"
  shows "m = 0 \<or> m = 1 \<or> m = 2 \<or> m = 3 \<or> m = 4 \<or> m = 5 \<or> m = 6 \<or> m = 7 \<or> m = 8 \<or> m = 9
         \<or> m = 10 \<or> m = 11"
proof -
  have "m \<in> set [0..11]" using assms by simp
  then show ?thesis by (simp add: upto.simps)
qed

lemma monthOfDay_start:
  assumes "l = 0 \<or> l = 1" and "0 \<le> d"
  shows "monthStart l (monthOfDay l d) \<le> d"
  using assms by (simp add: monthOfDay_def monthStart_def)

lemma monthOfDay_in:
  assumes "l = 0 \<or> l = 1" and "0 \<le> m" and "m < 12"
    and "monthStart l m \<le> d" and "d < monthStart l (m + 1)"
  shows "monthOfDay l d = m"
  using month_cases [OF assms(2,3)] assms(1,4,5)
  apply (elim disjE)
  apply (simp_all add: monthStart_def monthOfDay_def)
  done

lemma monthStart_bounds:
  assumes "l = 0 \<or> l = 1" and "0 \<le> m" and "m < 12"
  shows "0 \<le> monthStart l m" and "monthStart l (m + 1) \<le> 365 + l"
  using month_cases [OF assms(2,3)] assms(1) by (auto simp: monthStart_def)

lemma fields_of_day:
  assumes day: "Day t = firstOfMonth y m + dt - 1"
    and d: "1 \<le> dt" "dt \<le> daysInMonth (y + m div 12) (m mod 12)"
  shows "YearFromTime t = y + m div 12"
    and "MonthFromTime t = m mod 12"
    and "DateFromTime t = dt"
proof -
  let ?ym = "y + m div 12" and ?mn = "m mod 12"
  let ?l = "leapDays ?ym"
  have mn: "0 \<le> ?mn" "?mn < 12" by simp_all
  have dm: "monthStart ?l ?mn + dt - 1 < monthStart ?l (?mn + 1)"
    using d(2) by (simp add: daysInMonth_def)
  note ms = monthStart_bounds [OF leapDays_cases [of ?ym] mn]
  have e: "Day t = DayFromYear ?ym + (monthStart ?l ?mn + dt - 1)"
    using day by (simp add: firstOfMonth_def MakeDay_def Let_def)
  have lo: "DayFromYear ?ym \<le> Day t" using e ms(1) d(1) by simp
  have "monthStart ?l ?mn + dt - 1 < 365 + ?l" using dm ms(2) by simp
  then have hi: "Day t < DayFromYear (?ym + 1)"
    using e by (simp add: DayFromYear_step DaysInYear_leap)
  show y: "YearFromTime t = ?ym" using lo hi by (rule YearFromTime_unique)
  have dwy: "DayWithinYear t = monthStart ?l ?mn + dt - 1"
    using e by (simp add: DayWithinYear_def y)
  have il: "InLeapYear t = ?l" by (simp add: InLeapYear_def y)
  have "monthStart ?l ?mn \<le> monthStart ?l ?mn + dt - 1" using d(1) by simp
  then have "monthOfDay ?l (monthStart ?l ?mn + dt - 1) = ?mn"
    using dm by (intro monthOfDay_in [OF leapDays_cases [of ?ym] mn])
  then show mo: "MonthFromTime t = ?mn" by (simp add: MonthFromTime_def dwy il)
  show "DateFromTime t = dt"
    by (simp add: DateFromTime_def dwy il mo)
qed

lemma DayWithinYear_range: "0 \<le> DayWithinYear t \<and> DayWithinYear t < 365 + InLeapYear t"
  using YearFromTime_bounds [of t]
  by (simp add: DayWithinYear_def InLeapYear_def DayFromYear_step DaysInYear_leap)

lemma DateFromTime_pos: "1 \<le> DateFromTime t"
proof -
  have l: "InLeapYear t = 0 \<or> InLeapYear t = 1"
    by (simp add: InLeapYear_def leapDays_cases)
  have "0 \<le> DayWithinYear t" using DayWithinYear_range [of t] by simp
  with l have "monthStart (InLeapYear t) (monthOfDay (InLeapYear t) (DayWithinYear t))
      \<le> DayWithinYear t"
    by (rule monthOfDay_start)
  then show ?thesis by (simp add: DateFromTime_def MonthFromTime_def)
qed

lemma Day_of_days: "Day (n * msPerDay) = n" and Day_add_days: "Day (a + n * msPerDay) = Day a + n"
  and TimeWithinDay_add_days: "TimeWithinDay (a + n * msPerDay) = TimeWithinDay a"
  by (simp_all add: Day_def TimeWithinDay_def msPerDay_def)

lemma daysInMonth_pos: "1 \<le> daysInMonth y (m mod 12)"
proof -
  have "0 \<le> m mod 12" "m mod 12 < 12" by simp_all
  from month_cases [OF this] leapDays_cases [of y] show ?thesis
    by (auto simp: daysInMonth_def monthStart_def)
qed

lemma firstOfMonth_fields:
  shows "YearFromTime (firstOfMonth y m * msPerDay) = y + m div 12"
    and "MonthFromTime (firstOfMonth y m * msPerDay) = m mod 12"
    and "DateFromTime (firstOfMonth y m * msPerDay) = 1"
proof -
  have d: "Day (firstOfMonth y m * msPerDay) = firstOfMonth y m + 1 - 1"
    by (simp add: Day_of_days)
  have o: "(1::int) \<le> 1" by simp
  note f = fields_of_day [OF d o daysInMonth_pos]
  show "YearFromTime (firstOfMonth y m * msPerDay) = y + m div 12" by (rule f(1))
  show "MonthFromTime (firstOfMonth y m * msPerDay) = m mod 12" by (rule f(2))
  show "DateFromTime (firstOfMonth y m * msPerDay) = 1" by (rule f(3))
qed

lemma movedLocal_fields:
  assumes s: "seasonDays sn = 0"
    and d: "getDate z t \<le> daysInMonth (targetYear z sn t) (targetMonth z sn t)"
  shows "YearFromTime (movedLocal z sn t) = targetYear z sn t"
    and "MonthFromTime (movedLocal z sn t) = targetMonth z sn t"
    and "DateFromTime (movedLocal z sn t) = getDate z t"
    and "TimeWithinDay (movedLocal z sn t) = TimeWithinDay (LocalTime z t)"
proof -
  let ?lt = "LocalTime z t"
  let ?Y = "YearFromTime ?lt" and ?M = "MonthFromTime ?lt" and ?D = "DateFromTime ?lt"
  let ?n = "seasonMonths sn"
  let ?shift = "firstOfMonth ?Y (?M + ?n) - firstOfMonth ?Y ?M"
  let ?r = "movedLocal z sn t"
  have r: "?r = ?lt + ?shift * msPerDay"
    using s by (simp add: movedLocal_def getFullYear_def getMonth_def)
  have "Day ?r = Day ?lt + ?shift" unfolding r by (rule Day_add_days)
  then have day: "Day ?r = firstOfMonth ?Y (?M + ?n) + ?D - 1"
    using firstOfMonth_own [of ?lt] by simp
  have d': "?D \<le> daysInMonth (?Y + (?M + ?n) div 12) ((?M + ?n) mod 12)"
    using d by (simp add: targetYear_def targetMonth_def getDate_def getFullYear_def getMonth_def)
  note f = fields_of_day [OF day DateFromTime_pos d']
  show "YearFromTime ?r = targetYear z sn t"
    using f(1) by (simp add: getFullYear_def targetYear_def getMonth_def)
  show "MonthFromTime ?r = targetMonth z sn t"
    using f(2) by (simp add: getFullYear_def targetMonth_def getMonth_def)
  show "DateFromTime ?r = getDate z t"
    using f(3) by (simp add: getDate_def)
  show "TimeWithinDay ?r = TimeWithinDay ?lt"
    unfolding r by (rule TimeWithinDay_add_days)
qed

text \<open>
  C7 (amended). For every season and every start date, in every time zone: the result of
  \<open>getEndDate\<close> is 15:00:00.000 UTC on the UTC day of the start moved on by the season in
  local time. 1w and 2w move the local time of the start on by exactly 7 and 14 days.
  1m, 3m, 6m and 1y move it on by the days that lie between the first of the start's
  local month and the first of the month 1, 3, 6 and 12 months later: when that month has
  the start's day of the month, the moved local time is the same day of the month and
  the same time of day in that month, and otherwise it runs over into the month after
  it.
\<close>

theorem end_date_shift:
  "TimeWithinDay (getEndDate z sn t) = 54000000
   \<and> Day (getEndDate z sn t) = Day (addSeason z sn t)
   \<and> addSeason z sn t = UTC z (movedLocal z sn t)
   \<and> movedLocal z S1w t = LocalTime z t + 7 * msPerDay
   \<and> movedLocal z S2w t = LocalTime z t + 14 * msPerDay
   \<and> movedLocal z sn t
       = LocalTime z t
         + (seasonDays sn
            + (firstOfMonth (getFullYear z t) (getMonth z t + seasonMonths sn)
               - firstOfMonth (getFullYear z t) (getMonth z t))) * msPerDay
   \<and> (YearFromTime (firstOfMonth y m * msPerDay) = y + m div 12
      \<and> MonthFromTime (firstOfMonth y m * msPerDay) = m mod 12
      \<and> DateFromTime (firstOfMonth y m * msPerDay) = 1)
   \<and> (seasonDays sn = 0
      \<and> getDate z t \<le> daysInMonth (targetYear z sn t) (targetMonth z sn t)
      \<longrightarrow> YearFromTime (movedLocal z sn t) = targetYear z sn t
        \<and> MonthFromTime (movedLocal z sn t) = targetMonth z sn t
        \<and> DateFromTime (movedLocal z sn t) = getDate z t
        \<and> TimeWithinDay (movedLocal z sn t) = TimeWithinDay (LocalTime z t))"
proof -
  have h: "0 \<le> MakeTime 15 0 0 0" "MakeTime 15 0 0 0 < msPerDay"
    by (simp_all add: MakeTime_def msPerDay_def)
  have a: "TimeWithinDay (getEndDate z sn t) = 54000000"
    unfolding getEndDate_def setUTCHours_day(2) [OF h] by (simp add: MakeTime_def)
  have b: "Day (getEndDate z sn t) = Day (addSeason z sn t)"
    unfolding getEndDate_def by (rule setUTCHours_day(1) [OF h])
  note c = addSeason_moved [of z sn t]
  have w: "movedLocal z S1w t = LocalTime z t + 7 * msPerDay"
    "movedLocal z S2w t = LocalTime z t + 14 * msPerDay"
    by (simp_all add: movedLocal_def seasonDays_def seasonMonths_def)
  note d = movedLocal_def [of z sn t]
  note e = firstOfMonth_fields [of y m]
  have f: "YearFromTime (movedLocal z sn t) = targetYear z sn t
        \<and> MonthFromTime (movedLocal z sn t) = targetMonth z sn t
        \<and> DateFromTime (movedLocal z sn t) = getDate z t
        \<and> TimeWithinDay (movedLocal z sn t) = TimeWithinDay (LocalTime z t)"
    if "seasonDays sn = 0 \<and> getDate z t \<le> daysInMonth (targetYear z sn t) (targetMonth z sn t)"
    using movedLocal_fields [of sn z t] that by blast
  from a b c w d e f show ?thesis by blast
qed

text \<open>
  New York, 15 February 2024, 19:30 local time (16 February, 0:30 UTC), one month: the
  local time moves to 15 March, 19:30, which is 23:30 UTC now that daylight saving has
  begun, and the end date is 15 March, 15:00 UTC. One week from 8 March, 19:30 local
  time, ends on 15 March as well.
\<close>

theorem end_date_shift_witness:
  "seasonDays S1m = 0 \<and> getDate newYork2024 1708043400000 = 15
   \<and> daysInMonth (targetYear newYork2024 S1m 1708043400000)
        (targetMonth newYork2024 S1m 1708043400000) = 31
   \<and> toISOString 1708043400000 = ''2024-02-16T00:30:00.000Z''
   \<and> toISOString (LocalTime newYork2024 1708043400000) = ''2024-02-15T19:30:00.000Z''
   \<and> MonthFromTime (movedLocal newYork2024 S1m 1708043400000) = 2
   \<and> DateFromTime (movedLocal newYork2024 S1m 1708043400000) = 15
   \<and> toISOString (movedLocal newYork2024 S1m 1708043400000) = ''2024-03-15T19:30:00.000Z''
   \<and> toISOString (addSeason newYork2024 S1m 1708043400000) = ''2024-03-15T23:30:00.000Z''
   \<and> TimeWithinDay (getEndDate newYork2024 S1m 1708043400000) = 54000000
   \<and> toISOString (getEndDate newYork2024 S1m 1708043400000) = ''2024-03-15T15:00:00.000Z''
   \<and> toISOString 1709944200000 = ''2024-03-09T00:30:00.000Z''
   \<and> toISOString (getEndDate newYork2024 S1w 1709944200000) = ''2024-03-15T15:00:00.000Z''"
proof -
  let ?z = newYork2024 and ?t = "1708043400000 :: int"
  have a: "seasonDays S1m = 0" by (simp add: seasonDays_def)
  have b: "getDate ?z ?t = 15" by code_simp
  have c: "daysInMonth (targetYear ?z S1m ?t) (targetMonth ?z S1m ?t) = 31"
    by code_simp
  have d: "targetMonth ?z S1m ?t = 2" by code_simp
  have e: "toISOString ?t = ''2024-02-16T00:30:00.000Z''"
    "toISOString (LocalTime ?z ?t) = ''2024-02-15T19:30:00.000Z''"
    "toISOString (movedLocal ?z S1m ?t) = ''2024-03-15T19:30:00.000Z''"
    "toISOString (addSeason ?z S1m ?t) = ''2024-03-15T23:30:00.000Z''"
    "toISOString (getEndDate ?z S1m ?t) = ''2024-03-15T15:00:00.000Z''"
    "toISOString 1709944200000 = ''2024-03-09T00:30:00.000Z''"
    "toISOString (getEndDate ?z S1w 1709944200000) = ''2024-03-15T15:00:00.000Z''"
    by code_simp+
  have h: "seasonDays S1m = 0
      \<and> getDate ?z ?t \<le> daysInMonth (targetYear ?z S1m ?t) (targetMonth ?z S1m ?t)"
    unfolding b c using a by simp
  from end_date_shift [of ?z S1m ?t 2024 2] h
  have f: "MonthFromTime (movedLocal ?z S1m ?t) = targetMonth ?z S1m ?t"
    "DateFromTime (movedLocal ?z S1m ?t) = getDate ?z ?t"
    "TimeWithinDay (getEndDate ?z S1m ?t) = 54000000"
    by blast+
  have g: "MonthFromTime (movedLocal ?z S1m ?t) = 2"
    "DateFromTime (movedLocal ?z S1m ?t) = 15"
    using f(1,2) by (simp_all only: b d)
  show ?thesis by (intro conjI a b c e g f(3))
qed

text \<open>The claim C7 as it is stated: one calendar month after a day of January is a day
  of February. From 31 January 2023, 12:00 UTC, in the zone of UTC, the season 1m gives
  3 March 2023.\<close>

theorem end_date_counterexample:
  "toISOString 1675166400000 = ''2023-01-31T12:00:00.000Z''
   \<and> toISOString (getEndDate utcZone S1m 1675166400000) = ''2023-03-03T15:00:00.000Z''
   \<and> getMonth utcZone (getEndDate utcZone S1m 1675166400000)
       \<noteq> (getMonth utcZone 1675166400000 + 1) mod 12"
  by code_simp

end
